theory Spec2Isabelle
  imports Main "HOL-Library.Word" "HOL-Library.List_Lexorder" "HOL-Library.Multiset"
begin

section \<open>Strings\<close>

text \<open>
  A Python \<open>str\<close> is a sequence of Unicode code points: a character is its code point,
  an integer, and a string a list of them. The tables below are those of the Unicode
  database of Python 3.11 (Unicode 14): they say how \<open>str.isspace\<close>, \<open>str.isdecimal\<close>,
  \<open>str.isdigit\<close>, \<open>str.lower\<close> and \<open>int\<close> treat each code point.
\<close>

type_synonym str = "int list"

definition ascii :: "string \<Rightarrow> str" where
  \<comment> \<open>the string an ASCII literal denotes\<close>
  "ascii s = map of_char s"

definition in_ranges :: "(int \<times> int) list \<Rightarrow> int \<Rightarrow> bool" where
  "in_ranges rs c = list_ex (\<lambda>(lo, hi). lo \<le> c \<and> c \<le> hi) rs"

definition space_ranges :: "(int \<times> int) list" where
  \<comment> \<open>the white space of \<open>str.isspace\<close> and \<open>str.strip\<close>\<close>
  "space_ranges =
     [(0x9, 0xD), (0x1C, 0x20), (0x85, 0x85), (0xA0, 0xA0), (0x1680, 0x1680), (0x2000, 0x200A),
      (0x2028, 0x2029), (0x202F, 0x202F), (0x205F, 0x205F), (0x3000, 0x3000)]"

definition isspace :: "int \<Rightarrow> bool" where
  "isspace c = in_ranges space_ranges c"

definition strip :: "str \<Rightarrow> str" where
  "strip s = rev (dropWhile isspace (rev (dropWhile isspace s)))"

fun split :: "char \<Rightarrow> str \<Rightarrow> str list" where
  \<comment> \<open>\<open>s.split(sep)\<close> for a one-character separator\<close>
  "split sep [] = [[]]"
| "split sep (c # cs) =
     (if c = of_char sep then [] # split sep cs
      else (case split sep cs of p # ps \<Rightarrow> (c # p) # ps | [] \<Rightarrow> [[c]]))"

fun join :: "str \<Rightarrow> str list \<Rightarrow> str" where
  "join sep [] = []"
| "join sep [x] = x"
| "join sep (x # y # ys) = x @ sep @ join sep (y # ys)"

definition startswith :: "str \<Rightarrow> str \<Rightarrow> bool" where
  "startswith s p = (take (length p) s = p)"

subsection \<open>Digits\<close>

definition decimal_zeros :: "int list" where
  \<comment> \<open>the digit zero of every script; its nine successors are the digits one to nine\<close>
  "decimal_zeros =
     [0x30, 0x660, 0x6F0, 0x7C0, 0x966, 0x9E6, 0xA66, 0xAE6, 0xB66, 0xBE6, 0xC66, 0xCE6, 0xD66,
      0xDE6, 0xE50, 0xED0, 0xF20, 0x1040, 0x1090, 0x17E0, 0x1810, 0x1946, 0x19D0, 0x1A80,
      0x1A90, 0x1B50, 0x1BB0, 0x1C40, 0x1C50, 0xA620, 0xA8D0, 0xA900, 0xA9D0, 0xA9F0, 0xAA50,
      0xABF0, 0xFF10, 0x104A0, 0x10D30, 0x11066, 0x110F0, 0x11136, 0x111D0, 0x112F0, 0x11450,
      0x114D0, 0x11650, 0x116C0, 0x11730, 0x118E0, 0x11950, 0x11C50, 0x11D50, 0x11DA0, 0x16A60,
      0x16AC0, 0x16B50, 0x1D7CE, 0x1D7D8, 0x1D7E2, 0x1D7EC, 0x1D7F6, 0x1E140, 0x1E2F0, 0x1E950,
      0x1FBF0]"

definition decimal_of :: "int \<Rightarrow> int option" where
  \<comment> \<open>the value of a decimal digit of any script\<close>
  "decimal_of c = map_option (\<lambda>z. c - z) (find (\<lambda>z. z \<le> c \<and> c \<le> z + 9) decimal_zeros)"

definition isdecimal_char :: "int \<Rightarrow> bool" where
  \<comment> \<open>\<open>str.isdecimal\<close>: the regular expression class \<open>\d\<close>, and the digits \<open>int()\<close> reads\<close>
  "isdecimal_char c = (decimal_of c \<noteq> None)"

definition digit_val :: "int \<Rightarrow> int" where
  "digit_val c = (case decimal_of c of None \<Rightarrow> 0 | Some v \<Rightarrow> v)"

definition digit_ranges :: "(int \<times> int) list" where
  \<comment> \<open>\<open>str.isdigit\<close>: the decimal digits, and superscripts, subscripts, circled digits
      and the like, which \<open>int()\<close> does not read\<close>
  "digit_ranges =
     [(0x30, 0x39), (0xB2, 0xB3), (0xB9, 0xB9), (0x660, 0x669), (0x6F0, 0x6F9), (0x7C0, 0x7C9),
      (0x966, 0x96F), (0x9E6, 0x9EF), (0xA66, 0xA6F), (0xAE6, 0xAEF), (0xB66, 0xB6F),
      (0xBE6, 0xBEF), (0xC66, 0xC6F), (0xCE6, 0xCEF), (0xD66, 0xD6F), (0xDE6, 0xDEF),
      (0xE50, 0xE59), (0xED0, 0xED9), (0xF20, 0xF29), (0x1040, 0x1049), (0x1090, 0x1099),
      (0x1369, 0x1371), (0x17E0, 0x17E9), (0x1810, 0x1819), (0x1946, 0x194F), (0x19D0, 0x19DA),
      (0x1A80, 0x1A89), (0x1A90, 0x1A99), (0x1B50, 0x1B59), (0x1BB0, 0x1BB9), (0x1C40, 0x1C49),
      (0x1C50, 0x1C59), (0x2070, 0x2070), (0x2074, 0x2079), (0x2080, 0x2089), (0x2460, 0x2468),
      (0x2474, 0x247C), (0x2488, 0x2490), (0x24EA, 0x24EA), (0x24F5, 0x24FD), (0x24FF, 0x24FF),
      (0x2776, 0x277E), (0x2780, 0x2788), (0x278A, 0x2792), (0xA620, 0xA629), (0xA8D0, 0xA8D9),
      (0xA900, 0xA909), (0xA9D0, 0xA9D9), (0xA9F0, 0xA9F9), (0xAA50, 0xAA59), (0xABF0, 0xABF9),
      (0xFF10, 0xFF19), (0x104A0, 0x104A9), (0x10A40, 0x10A43), (0x10D30, 0x10D39),
      (0x10E60, 0x10E68), (0x11052, 0x1105A), (0x11066, 0x1106F), (0x110F0, 0x110F9),
      (0x11136, 0x1113F), (0x111D0, 0x111D9), (0x112F0, 0x112F9), (0x11450, 0x11459),
      (0x114D0, 0x114D9), (0x11650, 0x11659), (0x116C0, 0x116C9), (0x11730, 0x11739),
      (0x118E0, 0x118E9), (0x11950, 0x11959), (0x11C50, 0x11C59), (0x11D50, 0x11D59),
      (0x11DA0, 0x11DA9), (0x16A60, 0x16A69), (0x16AC0, 0x16AC9), (0x16B50, 0x16B59),
      (0x1D7CE, 0x1D7FF), (0x1E140, 0x1E149), (0x1E2F0, 0x1E2F9), (0x1E950, 0x1E959),
      (0x1F100, 0x1F10A), (0x1FBF0, 0x1FBF9)]"

definition isdigit_char :: "int \<Rightarrow> bool" where
  "isdigit_char c = in_ranges digit_ranges c"

definition isdigit :: "str \<Rightarrow> bool" where
  "isdigit s = (s \<noteq> [] \<and> list_all isdigit_char s)"

subsection \<open>\<open>str.lower\<close>\<close>

definition lower_runs :: "(int \<times> int \<times> int \<times> int) list" where
  \<comment> \<open>runs of characters with a lower-case form: the first and the last character of the
      run, the step from one to the next, and the lower-case form of the first; the forms
      of the others follow at the same distance\<close>
  "lower_runs =
     [(0x41, 0x5A, 1, 0x61), (0xC0, 0xD6, 1, 0xE0), (0xD8, 0xDE, 1, 0xF8),
      (0x100, 0x12E, 2, 0x101), (0x132, 0x136, 2, 0x133), (0x139, 0x147, 2, 0x13A),
      (0x14A, 0x176, 2, 0x14B), (0x178, 0x178, 1, 0xFF), (0x179, 0x17D, 2, 0x17A),
      (0x181, 0x181, 1, 0x253), (0x182, 0x184, 2, 0x183), (0x186, 0x186, 1, 0x254),
      (0x187, 0x187, 1, 0x188), (0x189, 0x18A, 1, 0x256), (0x18B, 0x18B, 1, 0x18C),
      (0x18E, 0x18E, 1, 0x1DD), (0x18F, 0x18F, 1, 0x259), (0x190, 0x190, 1, 0x25B),
      (0x191, 0x191, 1, 0x192), (0x193, 0x193, 1, 0x260), (0x194, 0x194, 1, 0x263),
      (0x196, 0x196, 1, 0x269), (0x197, 0x197, 1, 0x268), (0x198, 0x198, 1, 0x199),
      (0x19C, 0x19C, 1, 0x26F), (0x19D, 0x19D, 1, 0x272), (0x19F, 0x19F, 1, 0x275),
      (0x1A0, 0x1A4, 2, 0x1A1), (0x1A6, 0x1A6, 1, 0x280), (0x1A7, 0x1A7, 1, 0x1A8),
      (0x1A9, 0x1A9, 1, 0x283), (0x1AC, 0x1AC, 1, 0x1AD), (0x1AE, 0x1AE, 1, 0x288),
      (0x1AF, 0x1AF, 1, 0x1B0), (0x1B1, 0x1B2, 1, 0x28A), (0x1B3, 0x1B5, 2, 0x1B4),
      (0x1B7, 0x1B7, 1, 0x292), (0x1B8, 0x1B8, 1, 0x1B9), (0x1BC, 0x1BC, 1, 0x1BD),
      (0x1C4, 0x1C4, 1, 0x1C6), (0x1C5, 0x1C5, 1, 0x1C6), (0x1C7, 0x1C7, 1, 0x1C9),
      (0x1C8, 0x1C8, 1, 0x1C9), (0x1CA, 0x1CA, 1, 0x1CC), (0x1CB, 0x1DB, 2, 0x1CC),
      (0x1DE, 0x1EE, 2, 0x1DF), (0x1F1, 0x1F1, 1, 0x1F3), (0x1F2, 0x1F4, 2, 0x1F3),
      (0x1F6, 0x1F6, 1, 0x195), (0x1F7, 0x1F7, 1, 0x1BF), (0x1F8, 0x21E, 2, 0x1F9),
      (0x220, 0x220, 1, 0x19E), (0x222, 0x232, 2, 0x223), (0x23A, 0x23A, 1, 0x2C65),
      (0x23B, 0x23B, 1, 0x23C), (0x23D, 0x23D, 1, 0x19A), (0x23E, 0x23E, 1, 0x2C66),
      (0x241, 0x241, 1, 0x242), (0x243, 0x243, 1, 0x180), (0x244, 0x244, 1, 0x289),
      (0x245, 0x245, 1, 0x28C), (0x246, 0x24E, 2, 0x247), (0x370, 0x372, 2, 0x371),
      (0x376, 0x376, 1, 0x377), (0x37F, 0x37F, 1, 0x3F3), (0x386, 0x386, 1, 0x3AC),
      (0x388, 0x38A, 1, 0x3AD), (0x38C, 0x38C, 1, 0x3CC), (0x38E, 0x38F, 1, 0x3CD),
      (0x391, 0x3A1, 1, 0x3B1), (0x3A3, 0x3AB, 1, 0x3C3), (0x3CF, 0x3CF, 1, 0x3D7),
      (0x3D8, 0x3EE, 2, 0x3D9), (0x3F4, 0x3F4, 1, 0x3B8), (0x3F7, 0x3F7, 1, 0x3F8),
      (0x3F9, 0x3F9, 1, 0x3F2), (0x3FA, 0x3FA, 1, 0x3FB), (0x3FD, 0x3FF, 1, 0x37B),
      (0x400, 0x40F, 1, 0x450), (0x410, 0x42F, 1, 0x430), (0x460, 0x480, 2, 0x461),
      (0x48A, 0x4BE, 2, 0x48B), (0x4C0, 0x4C0, 1, 0x4CF), (0x4C1, 0x4CD, 2, 0x4C2),
      (0x4D0, 0x52E, 2, 0x4D1), (0x531, 0x556, 1, 0x561), (0x10A0, 0x10C5, 1, 0x2D00),
      (0x10C7, 0x10C7, 1, 0x2D27), (0x10CD, 0x10CD, 1, 0x2D2D), (0x13A0, 0x13EF, 1, 0xAB70),
      (0x13F0, 0x13F5, 1, 0x13F8), (0x1C90, 0x1CBA, 1, 0x10D0), (0x1CBD, 0x1CBF, 1, 0x10FD),
      (0x1E00, 0x1E94, 2, 0x1E01), (0x1E9E, 0x1E9E, 1, 0xDF), (0x1EA0, 0x1EFE, 2, 0x1EA1),
      (0x1F08, 0x1F0F, 1, 0x1F00), (0x1F18, 0x1F1D, 1, 0x1F10), (0x1F28, 0x1F2F, 1, 0x1F20),
      (0x1F38, 0x1F3F, 1, 0x1F30), (0x1F48, 0x1F4D, 1, 0x1F40), (0x1F59, 0x1F5F, 2, 0x1F51),
      (0x1F68, 0x1F6F, 1, 0x1F60), (0x1F88, 0x1F8F, 1, 0x1F80), (0x1F98, 0x1F9F, 1, 0x1F90),
      (0x1FA8, 0x1FAF, 1, 0x1FA0), (0x1FB8, 0x1FB9, 1, 0x1FB0), (0x1FBA, 0x1FBB, 1, 0x1F70),
      (0x1FBC, 0x1FBC, 1, 0x1FB3), (0x1FC8, 0x1FCB, 1, 0x1F72), (0x1FCC, 0x1FCC, 1, 0x1FC3),
      (0x1FD8, 0x1FD9, 1, 0x1FD0), (0x1FDA, 0x1FDB, 1, 0x1F76), (0x1FE8, 0x1FE9, 1, 0x1FE0),
      (0x1FEA, 0x1FEB, 1, 0x1F7A), (0x1FEC, 0x1FEC, 1, 0x1FE5), (0x1FF8, 0x1FF9, 1, 0x1F78),
      (0x1FFA, 0x1FFB, 1, 0x1F7C), (0x1FFC, 0x1FFC, 1, 0x1FF3), (0x2126, 0x2126, 1, 0x3C9),
      (0x212A, 0x212A, 1, 0x6B), (0x212B, 0x212B, 1, 0xE5), (0x2132, 0x2132, 1, 0x214E),
      (0x2160, 0x216F, 1, 0x2170), (0x2183, 0x2183, 1, 0x2184), (0x24B6, 0x24CF, 1, 0x24D0),
      (0x2C00, 0x2C2F, 1, 0x2C30), (0x2C60, 0x2C60, 1, 0x2C61), (0x2C62, 0x2C62, 1, 0x26B),
      (0x2C63, 0x2C63, 1, 0x1D7D), (0x2C64, 0x2C64, 1, 0x27D), (0x2C67, 0x2C6B, 2, 0x2C68),
      (0x2C6D, 0x2C6D, 1, 0x251), (0x2C6E, 0x2C6E, 1, 0x271), (0x2C6F, 0x2C6F, 1, 0x250),
      (0x2C70, 0x2C70, 1, 0x252), (0x2C72, 0x2C72, 1, 0x2C73), (0x2C75, 0x2C75, 1, 0x2C76),
      (0x2C7E, 0x2C7F, 1, 0x23F), (0x2C80, 0x2CE2, 2, 0x2C81), (0x2CEB, 0x2CED, 2, 0x2CEC),
      (0x2CF2, 0x2CF2, 1, 0x2CF3), (0xA640, 0xA66C, 2, 0xA641), (0xA680, 0xA69A, 2, 0xA681),
      (0xA722, 0xA72E, 2, 0xA723), (0xA732, 0xA76E, 2, 0xA733), (0xA779, 0xA77B, 2, 0xA77A),
      (0xA77D, 0xA77D, 1, 0x1D79), (0xA77E, 0xA786, 2, 0xA77F), (0xA78B, 0xA78B, 1, 0xA78C),
      (0xA78D, 0xA78D, 1, 0x265), (0xA790, 0xA792, 2, 0xA791), (0xA796, 0xA7A8, 2, 0xA797),
      (0xA7AA, 0xA7AA, 1, 0x266), (0xA7AB, 0xA7AB, 1, 0x25C), (0xA7AC, 0xA7AC, 1, 0x261),
      (0xA7AD, 0xA7AD, 1, 0x26C), (0xA7AE, 0xA7AE, 1, 0x26A), (0xA7B0, 0xA7B0, 1, 0x29E),
      (0xA7B1, 0xA7B1, 1, 0x287), (0xA7B2, 0xA7B2, 1, 0x29D), (0xA7B3, 0xA7B3, 1, 0xAB53),
      (0xA7B4, 0xA7C2, 2, 0xA7B5), (0xA7C4, 0xA7C4, 1, 0xA794), (0xA7C5, 0xA7C5, 1, 0x282),
      (0xA7C6, 0xA7C6, 1, 0x1D8E), (0xA7C7, 0xA7C9, 2, 0xA7C8), (0xA7D0, 0xA7D0, 1, 0xA7D1),
      (0xA7D6, 0xA7D8, 2, 0xA7D7), (0xA7F5, 0xA7F5, 1, 0xA7F6), (0xFF21, 0xFF3A, 1, 0xFF41),
      (0x10400, 0x10427, 1, 0x10428), (0x104B0, 0x104D3, 1, 0x104D8),
      (0x10570, 0x1057A, 1, 0x10597), (0x1057C, 0x1058A, 1, 0x105A3),
      (0x1058C, 0x10592, 1, 0x105B3), (0x10594, 0x10595, 1, 0x105BB),
      (0x10C80, 0x10CB2, 1, 0x10CC0), (0x118A0, 0x118BF, 1, 0x118C0),
      (0x16E40, 0x16E5F, 1, 0x16E60), (0x1E900, 0x1E921, 1, 0x1E922)]"

definition lower_cp :: "int \<Rightarrow> str" where
  \<comment> \<open>the lower-case form of one character; that of U+0130 has two characters\<close>
  "lower_cp c =
     (if c = 0x130 then [0x69, 0x307]
      else (case find (\<lambda>(lo, hi, st, t). lo \<le> c \<and> c \<le> hi \<and> (c - lo) mod st = 0) lower_runs of
              None \<Rightarrow> [c]
            | Some (lo, hi, st, t) \<Rightarrow> [t + (c - lo)]))"

definition cased_ranges :: "(int \<times> int) list" where
  \<comment> \<open>the cased characters that are not case-ignorable\<close>
  "cased_ranges =
     [(0x41, 0x5A), (0x61, 0x7A), (0xAA, 0xAA), (0xB5, 0xB5), (0xBA, 0xBA), (0xC0, 0xD6),
      (0xD8, 0xF6), (0xF8, 0x1BA), (0x1BC, 0x1BF), (0x1C4, 0x293), (0x295, 0x2AF),
      (0x370, 0x373), (0x376, 0x377), (0x37B, 0x37D), (0x37F, 0x37F), (0x386, 0x386),
      (0x388, 0x38A), (0x38C, 0x38C), (0x38E, 0x3A1), (0x3A3, 0x3F5), (0x3F7, 0x481),
      (0x48A, 0x52F), (0x531, 0x556), (0x560, 0x588), (0x10A0, 0x10C5), (0x10C7, 0x10C7),
      (0x10CD, 0x10CD), (0x10D0, 0x10FA), (0x10FD, 0x10FF), (0x13A0, 0x13F5), (0x13F8, 0x13FD),
      (0x1C80, 0x1C88), (0x1C90, 0x1CBA), (0x1CBD, 0x1CBF), (0x1D00, 0x1D2B), (0x1D6B, 0x1D77),
      (0x1D79, 0x1D9A), (0x1E00, 0x1F15), (0x1F18, 0x1F1D), (0x1F20, 0x1F45), (0x1F48, 0x1F4D),
      (0x1F50, 0x1F57), (0x1F59, 0x1F59), (0x1F5B, 0x1F5B), (0x1F5D, 0x1F5D), (0x1F5F, 0x1F7D),
      (0x1F80, 0x1FB4), (0x1FB6, 0x1FBC), (0x1FBE, 0x1FBE), (0x1FC2, 0x1FC4), (0x1FC6, 0x1FCC),
      (0x1FD0, 0x1FD3), (0x1FD6, 0x1FDB), (0x1FE0, 0x1FEC), (0x1FF2, 0x1FF4), (0x1FF6, 0x1FFC),
      (0x2102, 0x2102), (0x2107, 0x2107), (0x210A, 0x2113), (0x2115, 0x2115), (0x2119, 0x211D),
      (0x2124, 0x2124), (0x2126, 0x2126), (0x2128, 0x2128), (0x212A, 0x212D), (0x212F, 0x2134),
      (0x2139, 0x2139), (0x213C, 0x213F), (0x2145, 0x2149), (0x214E, 0x214E), (0x2160, 0x217F),
      (0x2183, 0x2184), (0x24B6, 0x24E9), (0x2C00, 0x2C7B), (0x2C7E, 0x2CE4), (0x2CEB, 0x2CEE),
      (0x2CF2, 0x2CF3), (0x2D00, 0x2D25), (0x2D27, 0x2D27), (0x2D2D, 0x2D2D), (0xA640, 0xA66D),
      (0xA680, 0xA69B), (0xA722, 0xA76F), (0xA771, 0xA787), (0xA78B, 0xA78E), (0xA790, 0xA7CA),
      (0xA7D0, 0xA7D1), (0xA7D3, 0xA7D3), (0xA7D5, 0xA7D9), (0xA7F5, 0xA7F6), (0xA7FA, 0xA7FA),
      (0xAB30, 0xAB5A), (0xAB60, 0xAB68), (0xAB70, 0xABBF), (0xFB00, 0xFB06), (0xFB13, 0xFB17),
      (0xFF21, 0xFF3A), (0xFF41, 0xFF5A), (0x10400, 0x1044F), (0x104B0, 0x104D3),
      (0x104D8, 0x104FB), (0x10570, 0x1057A), (0x1057C, 0x1058A), (0x1058C, 0x10592),
      (0x10594, 0x10595), (0x10597, 0x105A1), (0x105A3, 0x105B1), (0x105B3, 0x105B9),
      (0x105BB, 0x105BC), (0x10C80, 0x10CB2), (0x10CC0, 0x10CF2), (0x118A0, 0x118DF),
      (0x16E40, 0x16E7F), (0x1D400, 0x1D454), (0x1D456, 0x1D49C), (0x1D49E, 0x1D49F),
      (0x1D4A2, 0x1D4A2), (0x1D4A5, 0x1D4A6), (0x1D4A9, 0x1D4AC), (0x1D4AE, 0x1D4B9),
      (0x1D4BB, 0x1D4BB), (0x1D4BD, 0x1D4C3), (0x1D4C5, 0x1D505), (0x1D507, 0x1D50A),
      (0x1D50D, 0x1D514), (0x1D516, 0x1D51C), (0x1D51E, 0x1D539), (0x1D53B, 0x1D53E),
      (0x1D540, 0x1D544), (0x1D546, 0x1D546), (0x1D54A, 0x1D550), (0x1D552, 0x1D6A5),
      (0x1D6A8, 0x1D6C0), (0x1D6C2, 0x1D6DA), (0x1D6DC, 0x1D6FA), (0x1D6FC, 0x1D714),
      (0x1D716, 0x1D734), (0x1D736, 0x1D74E), (0x1D750, 0x1D76E), (0x1D770, 0x1D788),
      (0x1D78A, 0x1D7A8), (0x1D7AA, 0x1D7C2), (0x1D7C4, 0x1D7CB), (0x1DF00, 0x1DF09),
      (0x1DF0B, 0x1DF1E), (0x1E900, 0x1E943), (0x1F130, 0x1F149), (0x1F150, 0x1F169),
      (0x1F170, 0x1F189)]"

definition ignorable_ranges :: "(int \<times> int) list" where
  \<comment> \<open>the case-ignorable characters\<close>
  "ignorable_ranges =
     [(0x27, 0x27), (0x2E, 0x2E), (0x3A, 0x3A), (0x5E, 0x5E), (0x60, 0x60), (0xA8, 0xA8),
      (0xAD, 0xAD), (0xAF, 0xAF), (0xB4, 0xB4), (0xB7, 0xB8), (0x2B0, 0x36F), (0x374, 0x375),
      (0x37A, 0x37A), (0x384, 0x385), (0x387, 0x387), (0x483, 0x489), (0x559, 0x559),
      (0x55F, 0x55F), (0x591, 0x5BD), (0x5BF, 0x5BF), (0x5C1, 0x5C2), (0x5C4, 0x5C5),
      (0x5C7, 0x5C7), (0x5F4, 0x5F4), (0x600, 0x605), (0x610, 0x61A), (0x61C, 0x61C),
      (0x640, 0x640), (0x64B, 0x65F), (0x670, 0x670), (0x6D6, 0x6DD), (0x6DF, 0x6E8),
      (0x6EA, 0x6ED), (0x70F, 0x70F), (0x711, 0x711), (0x730, 0x74A), (0x7A6, 0x7B0),
      (0x7EB, 0x7F5), (0x7FA, 0x7FA), (0x7FD, 0x7FD), (0x816, 0x82D), (0x859, 0x85B),
      (0x888, 0x888), (0x890, 0x891), (0x898, 0x89F), (0x8C9, 0x902), (0x93A, 0x93A),
      (0x93C, 0x93C), (0x941, 0x948), (0x94D, 0x94D), (0x951, 0x957), (0x962, 0x963),
      (0x971, 0x971), (0x981, 0x981), (0x9BC, 0x9BC), (0x9C1, 0x9C4), (0x9CD, 0x9CD),
      (0x9E2, 0x9E3), (0x9FE, 0x9FE), (0xA01, 0xA02), (0xA3C, 0xA3C), (0xA41, 0xA42),
      (0xA47, 0xA48), (0xA4B, 0xA4D), (0xA51, 0xA51), (0xA70, 0xA71), (0xA75, 0xA75),
      (0xA81, 0xA82), (0xABC, 0xABC), (0xAC1, 0xAC5), (0xAC7, 0xAC8), (0xACD, 0xACD),
      (0xAE2, 0xAE3), (0xAFA, 0xAFF), (0xB01, 0xB01), (0xB3C, 0xB3C), (0xB3F, 0xB3F),
      (0xB41, 0xB44), (0xB4D, 0xB4D), (0xB55, 0xB56), (0xB62, 0xB63), (0xB82, 0xB82),
      (0xBC0, 0xBC0), (0xBCD, 0xBCD), (0xC00, 0xC00), (0xC04, 0xC04), (0xC3C, 0xC3C),
      (0xC3E, 0xC40), (0xC46, 0xC48), (0xC4A, 0xC4D), (0xC55, 0xC56), (0xC62, 0xC63),
      (0xC81, 0xC81), (0xCBC, 0xCBC), (0xCBF, 0xCBF), (0xCC6, 0xCC6), (0xCCC, 0xCCD),
      (0xCE2, 0xCE3), (0xD00, 0xD01), (0xD3B, 0xD3C), (0xD41, 0xD44), (0xD4D, 0xD4D),
      (0xD62, 0xD63), (0xD81, 0xD81), (0xDCA, 0xDCA), (0xDD2, 0xDD4), (0xDD6, 0xDD6),
      (0xE31, 0xE31), (0xE34, 0xE3A), (0xE46, 0xE4E), (0xEB1, 0xEB1), (0xEB4, 0xEBC),
      (0xEC6, 0xEC6), (0xEC8, 0xECD), (0xF18, 0xF19), (0xF35, 0xF35), (0xF37, 0xF37),
      (0xF39, 0xF39), (0xF71, 0xF7E), (0xF80, 0xF84), (0xF86, 0xF87), (0xF8D, 0xF97),
      (0xF99, 0xFBC), (0xFC6, 0xFC6), (0x102D, 0x1030), (0x1032, 0x1037), (0x1039, 0x103A),
      (0x103D, 0x103E), (0x1058, 0x1059), (0x105E, 0x1060), (0x1071, 0x1074), (0x1082, 0x1082),
      (0x1085, 0x1086), (0x108D, 0x108D), (0x109D, 0x109D), (0x10FC, 0x10FC), (0x135D, 0x135F),
      (0x1712, 0x1714), (0x1732, 0x1733), (0x1752, 0x1753), (0x1772, 0x1773), (0x17B4, 0x17B5),
      (0x17B7, 0x17BD), (0x17C6, 0x17C6), (0x17C9, 0x17D3), (0x17D7, 0x17D7), (0x17DD, 0x17DD),
      (0x180B, 0x180F), (0x1843, 0x1843), (0x1885, 0x1886), (0x18A9, 0x18A9), (0x1920, 0x1922),
      (0x1927, 0x1928), (0x1932, 0x1932), (0x1939, 0x193B), (0x1A17, 0x1A18), (0x1A1B, 0x1A1B),
      (0x1A56, 0x1A56), (0x1A58, 0x1A5E), (0x1A60, 0x1A60), (0x1A62, 0x1A62), (0x1A65, 0x1A6C),
      (0x1A73, 0x1A7C), (0x1A7F, 0x1A7F), (0x1AA7, 0x1AA7), (0x1AB0, 0x1ACE), (0x1B00, 0x1B03),
      (0x1B34, 0x1B34), (0x1B36, 0x1B3A), (0x1B3C, 0x1B3C), (0x1B42, 0x1B42), (0x1B6B, 0x1B73),
      (0x1B80, 0x1B81), (0x1BA2, 0x1BA5), (0x1BA8, 0x1BA9), (0x1BAB, 0x1BAD), (0x1BE6, 0x1BE6),
      (0x1BE8, 0x1BE9), (0x1BED, 0x1BED), (0x1BEF, 0x1BF1), (0x1C2C, 0x1C33), (0x1C36, 0x1C37),
      (0x1C78, 0x1C7D), (0x1CD0, 0x1CD2), (0x1CD4, 0x1CE0), (0x1CE2, 0x1CE8), (0x1CED, 0x1CED),
      (0x1CF4, 0x1CF4), (0x1CF8, 0x1CF9), (0x1D2C, 0x1D6A), (0x1D78, 0x1D78), (0x1D9B, 0x1DFF),
      (0x1FBD, 0x1FBD), (0x1FBF, 0x1FC1), (0x1FCD, 0x1FCF), (0x1FDD, 0x1FDF), (0x1FED, 0x1FEF),
      (0x1FFD, 0x1FFE), (0x200B, 0x200F), (0x2018, 0x2019), (0x2024, 0x2024), (0x2027, 0x2027),
      (0x202A, 0x202E), (0x2060, 0x2064), (0x2066, 0x206F), (0x2071, 0x2071), (0x207F, 0x207F),
      (0x2090, 0x209C), (0x20D0, 0x20F0), (0x2C7C, 0x2C7D), (0x2CEF, 0x2CF1), (0x2D6F, 0x2D6F),
      (0x2D7F, 0x2D7F), (0x2DE0, 0x2DFF), (0x2E2F, 0x2E2F), (0x3005, 0x3005), (0x302A, 0x302D),
      (0x3031, 0x3035), (0x303B, 0x303B), (0x3099, 0x309E), (0x30FC, 0x30FE), (0xA015, 0xA015),
      (0xA4F8, 0xA4FD), (0xA60C, 0xA60C), (0xA66F, 0xA672), (0xA674, 0xA67D), (0xA67F, 0xA67F),
      (0xA69C, 0xA69F), (0xA6F0, 0xA6F1), (0xA700, 0xA721), (0xA770, 0xA770), (0xA788, 0xA78A),
      (0xA7F2, 0xA7F4), (0xA7F8, 0xA7F9), (0xA802, 0xA802), (0xA806, 0xA806), (0xA80B, 0xA80B),
      (0xA825, 0xA826), (0xA82C, 0xA82C), (0xA8C4, 0xA8C5), (0xA8E0, 0xA8F1), (0xA8FF, 0xA8FF),
      (0xA926, 0xA92D), (0xA947, 0xA951), (0xA980, 0xA982), (0xA9B3, 0xA9B3), (0xA9B6, 0xA9B9),
      (0xA9BC, 0xA9BD), (0xA9CF, 0xA9CF), (0xA9E5, 0xA9E6), (0xAA29, 0xAA2E), (0xAA31, 0xAA32),
      (0xAA35, 0xAA36), (0xAA43, 0xAA43), (0xAA4C, 0xAA4C), (0xAA70, 0xAA70), (0xAA7C, 0xAA7C),
      (0xAAB0, 0xAAB0), (0xAAB2, 0xAAB4), (0xAAB7, 0xAAB8), (0xAABE, 0xAABF), (0xAAC1, 0xAAC1),
      (0xAADD, 0xAADD), (0xAAEC, 0xAAED), (0xAAF3, 0xAAF4), (0xAAF6, 0xAAF6), (0xAB5B, 0xAB5F),
      (0xAB69, 0xAB6B), (0xABE5, 0xABE5), (0xABE8, 0xABE8), (0xABED, 0xABED), (0xFB1E, 0xFB1E),
      (0xFBB2, 0xFBC2), (0xFE00, 0xFE0F), (0xFE13, 0xFE13), (0xFE20, 0xFE2F), (0xFE52, 0xFE52),
      (0xFE55, 0xFE55), (0xFEFF, 0xFEFF), (0xFF07, 0xFF07), (0xFF0E, 0xFF0E), (0xFF1A, 0xFF1A),
      (0xFF3E, 0xFF3E), (0xFF40, 0xFF40), (0xFF70, 0xFF70), (0xFF9E, 0xFF9F), (0xFFE3, 0xFFE3),
      (0xFFF9, 0xFFFB), (0x101FD, 0x101FD), (0x102E0, 0x102E0), (0x10376, 0x1037A),
      (0x10780, 0x10785), (0x10787, 0x107B0), (0x107B2, 0x107BA), (0x10A01, 0x10A03),
      (0x10A05, 0x10A06), (0x10A0C, 0x10A0F), (0x10A38, 0x10A3A), (0x10A3F, 0x10A3F),
      (0x10AE5, 0x10AE6), (0x10D24, 0x10D27), (0x10EAB, 0x10EAC), (0x10F46, 0x10F50),
      (0x10F82, 0x10F85), (0x11001, 0x11001), (0x11038, 0x11046), (0x11070, 0x11070),
      (0x11073, 0x11074), (0x1107F, 0x11081), (0x110B3, 0x110B6), (0x110B9, 0x110BA),
      (0x110BD, 0x110BD), (0x110C2, 0x110C2), (0x110CD, 0x110CD), (0x11100, 0x11102),
      (0x11127, 0x1112B), (0x1112D, 0x11134), (0x11173, 0x11173), (0x11180, 0x11181),
      (0x111B6, 0x111BE), (0x111C9, 0x111CC), (0x111CF, 0x111CF), (0x1122F, 0x11231),
      (0x11234, 0x11234), (0x11236, 0x11237), (0x1123E, 0x1123E), (0x112DF, 0x112DF),
      (0x112E3, 0x112EA), (0x11300, 0x11301), (0x1133B, 0x1133C), (0x11340, 0x11340),
      (0x11366, 0x1136C), (0x11370, 0x11374), (0x11438, 0x1143F), (0x11442, 0x11444),
      (0x11446, 0x11446), (0x1145E, 0x1145E), (0x114B3, 0x114B8), (0x114BA, 0x114BA),
      (0x114BF, 0x114C0), (0x114C2, 0x114C3), (0x115B2, 0x115B5), (0x115BC, 0x115BD),
      (0x115BF, 0x115C0), (0x115DC, 0x115DD), (0x11633, 0x1163A), (0x1163D, 0x1163D),
      (0x1163F, 0x11640), (0x116AB, 0x116AB), (0x116AD, 0x116AD), (0x116B0, 0x116B5),
      (0x116B7, 0x116B7), (0x1171D, 0x1171F), (0x11722, 0x11725), (0x11727, 0x1172B),
      (0x1182F, 0x11837), (0x11839, 0x1183A), (0x1193B, 0x1193C), (0x1193E, 0x1193E),
      (0x11943, 0x11943), (0x119D4, 0x119D7), (0x119DA, 0x119DB), (0x119E0, 0x119E0),
      (0x11A01, 0x11A0A), (0x11A33, 0x11A38), (0x11A3B, 0x11A3E), (0x11A47, 0x11A47),
      (0x11A51, 0x11A56), (0x11A59, 0x11A5B), (0x11A8A, 0x11A96), (0x11A98, 0x11A99),
      (0x11C30, 0x11C36), (0x11C38, 0x11C3D), (0x11C3F, 0x11C3F), (0x11C92, 0x11CA7),
      (0x11CAA, 0x11CB0), (0x11CB2, 0x11CB3), (0x11CB5, 0x11CB6), (0x11D31, 0x11D36),
      (0x11D3A, 0x11D3A), (0x11D3C, 0x11D3D), (0x11D3F, 0x11D45), (0x11D47, 0x11D47),
      (0x11D90, 0x11D91), (0x11D95, 0x11D95), (0x11D97, 0x11D97), (0x11EF3, 0x11EF4),
      (0x13430, 0x13438), (0x16AF0, 0x16AF4), (0x16B30, 0x16B36), (0x16B40, 0x16B43),
      (0x16F4F, 0x16F4F), (0x16F8F, 0x16F9F), (0x16FE0, 0x16FE1), (0x16FE3, 0x16FE4),
      (0x1AFF0, 0x1AFF3), (0x1AFF5, 0x1AFFB), (0x1AFFD, 0x1AFFE), (0x1BC9D, 0x1BC9E),
      (0x1BCA0, 0x1BCA3), (0x1CF00, 0x1CF2D), (0x1CF30, 0x1CF46), (0x1D167, 0x1D169),
      (0x1D173, 0x1D182), (0x1D185, 0x1D18B), (0x1D1AA, 0x1D1AD), (0x1D242, 0x1D244),
      (0x1DA00, 0x1DA36), (0x1DA3B, 0x1DA6C), (0x1DA75, 0x1DA75), (0x1DA84, 0x1DA84),
      (0x1DA9B, 0x1DA9F), (0x1DAA1, 0x1DAAF), (0x1E000, 0x1E006), (0x1E008, 0x1E018),
      (0x1E01B, 0x1E021), (0x1E023, 0x1E024), (0x1E026, 0x1E02A), (0x1E130, 0x1E13D),
      (0x1E2AE, 0x1E2AE), (0x1E2EC, 0x1E2EF), (0x1E8D0, 0x1E8D6), (0x1E944, 0x1E94B),
      (0x1F3FB, 0x1F3FF), (0xE0001, 0xE0001), (0xE0020, 0xE007F), (0xE0100, 0xE01EF)]"

definition final_sigma :: "str \<Rightarrow> nat \<Rightarrow> bool" where
  \<comment> \<open>the capital sigma at place \<open>i\<close> ends a word: a cased character before it and none
      after it, case-ignorable characters skipped\<close>
  "final_sigma s i =
     (let before = dropWhile (in_ranges ignorable_ranges) (rev (take i s));
          after = dropWhile (in_ranges ignorable_ranges) (drop (Suc i) s)
      in (before \<noteq> [] \<and> in_ranges cased_ranges (hd before))
         \<and> (after = [] \<or> \<not> in_ranges cased_ranges (hd after)))"

definition lower_at :: "str \<Rightarrow> nat \<Rightarrow> str" where
  "lower_at s i =
     (if s ! i = 0x3A3 then [if final_sigma s i then 0x3C2 else 0x3C3] else lower_cp (s ! i))"

definition lower :: "str \<Rightarrow> str" where
  "lower s = concat (map (lower_at s) [0..<length s])"

subsection \<open>\<open>int\<close>\<close>

definition int_space_ranges :: "(int \<times> int) list" where
  \<comment> \<open>the white space \<open>int()\<close> skips at both ends: not the separators U+001C to U+001F\<close>
  "int_space_ranges =
     [(0x9, 0xD), (0x20, 0x20), (0x85, 0x85), (0xA0, 0xA0), (0x1680, 0x1680), (0x2000, 0x200A),
      (0x2028, 0x2029), (0x202F, 0x202F), (0x205F, 0x205F), (0x3000, 0x3000)]"

definition int_space :: "int \<Rightarrow> bool" where
  "int_space c = in_ranges int_space_ranges c"

fun int_digits :: "int \<Rightarrow> str \<Rightarrow> int option" where
  \<comment> \<open>the rest of a decimal literal after a digit: digits, single underscores between them\<close>
  "int_digits acc [] = Some acc"
| "int_digits acc (c # cs) =
     (if isdecimal_char c then int_digits (acc * 10 + digit_val c) cs
      else if c = of_char CHR ''_'' then
        (case cs of
           [] \<Rightarrow> None
         | d # ds \<Rightarrow> if isdecimal_char d then int_digits (acc * 10 + digit_val d) ds else None)
      else None)"

definition digit_count :: "str \<Rightarrow> int" where
  "digit_count s = foldl (\<lambda>n c. if isdecimal_char c then n + 1 else n) 0 s"

definition int_unsigned :: "str \<Rightarrow> int option" where
  \<comment> \<open>a literal without sign; one of more than 4300 digits is refused\<close>
  "int_unsigned s =
     (case s of
        [] \<Rightarrow> None
      | d # ds \<Rightarrow>
          if isdecimal_char d \<and> digit_count s \<le> 4300 then int_digits (digit_val d) ds
          else None)"

definition py_int :: "str \<Rightarrow> int option" where
  \<comment> \<open>\<open>int(s)\<close>; \<open>None\<close> is the \<open>ValueError\<close>\<close>
  "py_int s =
     (case rev (dropWhile int_space (rev (dropWhile int_space s))) of
        [] \<Rightarrow> None
      | c # cs \<Rightarrow>
          if c = of_char CHR ''-'' then map_option uminus (int_unsigned cs)
          else if c = of_char CHR ''+'' then int_unsigned cs
          else int_unsigned (c # cs))"




section \<open>\<open>normalize_username\<close>\<close>

definition normalize_username :: "str \<Rightarrow> str" where
  "normalize_username v =
     (let username = strip v
      in if startswith username (ascii ''@'') then username else ascii ''@'' @ username)"

section \<open>\<open>datetime.strptime(s, "%Y-%m-%d")\<close>\<close>

text \<open>
  The library compiles the format to the regular expression
  \<^verbatim>\<open>(\d\d\d\d)-(1[0-2]|0[1-9]|[1-9])-(3[0-1]|[1-2]\d|0[1-9]|[1-9]| [1-9])\<close>,
  matches it at the start of the string, fails when characters remain after the match,
  and builds the date from the three groups, which fails for year 0 and for a day the
  month does not have. \<open>\d\<close> is a decimal digit of any script; the other classes hold
  the ASCII digits only.
\<close>

fun match_seq :: "(int \<Rightarrow> bool) list \<Rightarrow> str \<Rightarrow> (str \<times> str) option" where
  \<comment> \<open>one character class after the other; the matched text and the rest\<close>
  "match_seq [] s = Some ([], s)"
| "match_seq (p # ps) [] = None"
| "match_seq (p # ps) (c # cs) =
     (if p c then (case match_seq ps cs of None \<Rightarrow> None | Some (m, r) \<Rightarrow> Some (c # m, r))
      else None)"

definition match_alts :: "(int \<Rightarrow> bool) list list \<Rightarrow> str \<Rightarrow> (str \<times> str) list" where
  \<comment> \<open>the alternatives that match, in the order the matcher tries them\<close>
  "match_alts alts s = List.map_filter (\<lambda>alt. match_seq alt s) alts"

definition between :: "char \<Rightarrow> char \<Rightarrow> int \<Rightarrow> bool" where
  "between lo hi c = (of_char lo \<le> c \<and> c \<le> of_char hi)"

definition is_char :: "char \<Rightarrow> int \<Rightarrow> bool" where
  "is_char a c = (c = of_char a)"

definition year_re :: "(int \<Rightarrow> bool) list list" where
  "year_re = [[isdecimal_char, isdecimal_char, isdecimal_char, isdecimal_char]]"

definition month_re :: "(int \<Rightarrow> bool) list list" where
  "month_re = [[is_char CHR ''1'', between CHR ''0'' CHR ''2''],
               [is_char CHR ''0'', between CHR ''1'' CHR ''9''],
               [between CHR ''1'' CHR ''9'']]"

definition day_re :: "(int \<Rightarrow> bool) list list" where
  "day_re = [[is_char CHR ''3'', between CHR ''0'' CHR ''1''],
             [between CHR ''1'' CHR ''2'', isdecimal_char],
             [is_char CHR ''0'', between CHR ''1'' CHR ''9''],
             [between CHR ''1'' CHR ''9''],
             [is_char CHR '' '', between CHR ''1'' CHR ''9'']]"

definition dash_re :: "(int \<Rightarrow> bool) list list" where
  "dash_re = [[is_char CHR ''-'']]"

definition ymd_matches :: "str \<Rightarrow> (str \<times> str \<times> str \<times> str) list" where
  \<comment> \<open>every way the expression matches a prefix, first choice first: groups and rest\<close>
  "ymd_matches s =
     concat (map (\<lambda>(y, r1).
       concat (map (\<lambda>(_, r2).
         concat (map (\<lambda>(m, r3).
           concat (map (\<lambda>(_, r4).
             map (\<lambda>(d, r5). (y, m, d, r5)) (match_alts day_re r4))
           (match_alts dash_re r3)))
         (match_alts month_re r2)))
       (match_alts dash_re r1)))
     (match_alts year_re s))"

definition is_leap :: "int \<Rightarrow> bool" where
  "is_leap y = (y mod 4 = 0 \<and> (y mod 100 \<noteq> 0 \<or> y mod 400 = 0))"

definition days_in_month :: "int \<Rightarrow> int \<Rightarrow> int" where
  "days_in_month y m =
     (if m = 2 then (if is_leap y then 29 else 28)
      else if m = 4 \<or> m = 6 \<or> m = 9 \<or> m = 11 then 30 else 31)"

definition date_ok :: "int \<Rightarrow> int \<Rightarrow> int \<Rightarrow> bool" where
  \<comment> \<open>the range check of \<open>datetime.date(year, month, day)\<close>\<close>
  "date_ok y m d = (1 \<le> y \<and> y \<le> 9999 \<and> 1 \<le> m \<and> m \<le> 12 \<and> 1 \<le> d \<and> d \<le> days_in_month y m)"

definition strptime_ymd :: "str \<Rightarrow> (int \<times> int \<times> int) option" where
  \<comment> \<open>\<open>None\<close> is the \<open>ValueError\<close>\<close>
  "strptime_ymd s =
     (case ymd_matches s of
        [] \<Rightarrow> None
      | (ys, ms, ds, rest) # _ \<Rightarrow>
          if rest \<noteq> [] then None
          else (case (py_int ys, py_int ms, py_int ds) of
                  (Some y, Some m, Some d) \<Rightarrow> if date_ok y m d then Some (y, m, d) else None
                | _ \<Rightarrow> None))"

section \<open>\<open>parse_task_input\<close>\<close>

record TaskInput =
  title :: str
  assignee :: str
  due_date :: str
  priority :: str
  tags :: str

datatype error =
    Usage_format     \<comment> \<open>line 72: the expected format of \<open>/newtask\<close>\<close>
  | Empty_title      \<comment> \<open>line 78: the title must not be empty\<close>
  | Bad_date         \<comment> \<open>line 85: the date must be in the format YYYY-MM-DD\<close>
  | Bad_priority     \<comment> \<open>line 89: priority is low, medium or high\<close>

definition parse_task_input :: "str \<Rightarrow> error + TaskInput" where
  "parse_task_input raw =
     (let parts = map strip (split CHR ''|'' raw)
      in case parts of
           [t, a, d, p, g] \<Rightarrow>
             if t = [] then Inl Empty_title
             else let a' = normalize_username a
               in (case strptime_ymd d of
                     None \<Rightarrow> Inl Bad_date
                   | Some _ \<Rightarrow>
                       let normalized_priority = lower p
                       in if normalized_priority \<notin> {ascii ''low'', ascii ''medium'', ascii ''high''}
                          then Inl Bad_priority
                          else Inr \<lparr>title = t, assignee = a', due_date = d,
                                    priority = normalized_priority, tags = g\<rparr>)
         | _ \<Rightarrow> Inl Usage_format)"

section \<open>The table \<open>tasks\<close>\<close>

text \<open>
  One record per row, one field per column of the schema (lines 45 to 58); the columns
  that may be \<open>NULL\<close> are options. An \<open>INTEGER\<close> of SQLite is a signed integer of 64
  bits, read with \<^const>\<open>sint\<close>; the time stamps are the text \<open>CURRENT_TIMESTAMP\<close> gives.
\<close>

record row =
  id_col :: "64 word"
  chat_id_col :: "64 word"
  created_by_id_col :: "64 word"
  created_by_username_col :: "str option"
  title_col :: str
  assignee_username_col :: str
  due_date_col :: str
  priority_col :: str
  tags_col :: "str option"
  status_col :: str
  created_at_col :: str
  completed_at_col :: "str option"

datatype stmt =
    Insert_task row
  | Select_open "64 word"
  | Select_open_assignee "64 word" str
  | Select_task "64 word" "64 word"
  | Update_done "64 word"
  | Commit

record db =
  rows :: "row list"
  executed :: "stmt list"    \<comment> \<open>the statements the connections have run, oldest first\<close>

definition execute :: "stmt \<Rightarrow> db \<Rightarrow> db" where
  "execute q d = d\<lparr>executed := executed d @ [q]\<rparr>"

definition bind_int :: "int \<Rightarrow> 64 word option" where
  \<comment> \<open>a Python integer as a parameter of a statement: outside the 64 bits, binding it
      raises \<open>OverflowError\<close>\<close>
  "bind_int n = (if - (2 ^ 63) \<le> n \<and> n < 2 ^ 63 then Some (word_of_int n) else None)"

subsection \<open>\<open>ORDER BY due_date ASC, priority DESC, id DESC\<close>\<close>

text \<open>
  \<open>due_date\<close> and \<open>priority\<close> are \<open>TEXT\<close> columns: SQLite compares them as strings,
  character by character; \<open>id\<close> is compared as an integer.
\<close>

definition order_by :: "row \<Rightarrow> row \<Rightarrow> bool" where
  \<comment> \<open>\<open>r\<close> is listed no later than \<open>s\<close>\<close>
  "order_by r s =
     (due_date_col r < due_date_col s
      \<or> (due_date_col r = due_date_col s
          \<and> (priority_col s < priority_col r
              \<or> (priority_col r = priority_col s \<and> sint (id_col s) \<le> sint (id_col r)))))"

fun insert_row :: "row \<Rightarrow> row list \<Rightarrow> row list" where
  "insert_row r [] = [r]"
| "insert_row r (s # ss) = (if order_by r s then r # s # ss else s # insert_row r ss)"

definition sort_rows :: "row list \<Rightarrow> row list" where
  "sort_rows rs = foldr insert_row rs []"

definition list_open :: "64 word \<Rightarrow> row list \<Rightarrow> row list" where
  \<comment> \<open>the query of \<open>tasks\<close>, lines 180 to 187\<close>
  "list_open cid rs =
     sort_rows (filter (\<lambda>r. chat_id_col r = cid \<and> status_col r = ascii ''open'') rs)"

definition list_open_for_assignee :: "64 word \<Rightarrow> str \<Rightarrow> row list \<Rightarrow> row list" where
  \<comment> \<open>the query of \<open>mytasks\<close>, lines 204 to 211\<close>
  "list_open_for_assignee cid handle rs =
     sort_rows (filter (\<lambda>r. chat_id_col r = cid \<and> status_col r = ascii ''open''
                           \<and> assignee_username_col r = handle) rs)"

section \<open>The command handlers\<close>

text \<open>
  The identifiers of chats and users come from Telegram, which keeps them within 64 bits;
  the argument of \<open>/done\<close> is typed by the user and can be any number.
\<close>

record user =
  user_id :: "64 word"
  username :: "str option"

record update =
  effective_chat_id :: "64 word"
  effective_user :: "user option"

datatype reply =
    Reply_help
  | Reply_newtask_usage
  | Reply_error error          \<comment> \<open>the text of the \<open>ValueError\<close> of \<open>parse_task_input\<close>\<close>
  | Reply_created "64 word"
  | Reply_no_open_tasks
  | Reply_no_user
  | Reply_no_own_tasks
  | Reply_task_list "row list" \<comment> \<open>the rows, each through \<open>format_task_row\<close>, in this order\<close>
  | Reply_done_usage
  | Reply_not_found
  | Reply_closed "64 word"

datatype exn =
    ValueError         \<comment> \<open>\<open>int()\<close> on line 226\<close>
  | AttributeError     \<comment> \<open>\<open>created_by.id\<close> on line 154, without a user\<close>
  | OverflowError      \<comment> \<open>an id beyond 64 bits as a parameter of the statement on line 228\<close>
  | OperationalError   \<comment> \<open>the statement on line 144, when no id is left\<close>

type_synonym handler_result = "(exn + reply) \<times> db"







definition tasks :: "update \<Rightarrow> db \<Rightarrow> handler_result" where
  "tasks u d =
     (let found = list_open (effective_chat_id u) (rows d);
          d' = execute (Select_open (effective_chat_id u)) d
      in if found = [] then (Inr Reply_no_open_tasks, d') else (Inr (Reply_task_list found), d'))"


definition set_done :: "64 word \<Rightarrow> str \<Rightarrow> row list \<Rightarrow> row list" where
  \<comment> \<open>\<open>UPDATE tasks SET status = 'done', completed_at = CURRENT_TIMESTAMP WHERE id = ?\<close>\<close>
  "set_done task_id now rs =
     map (\<lambda>r. if id_col r = task_id
               then r\<lparr>status_col := ascii ''done'', completed_at_col := Some now\<rparr> else r) rs"

definition complete :: "64 word \<Rightarrow> 64 word \<Rightarrow> str \<Rightarrow> db \<Rightarrow> handler_result" where
  \<comment> \<open>lines 228 to 247 of \<open>done\<close>, for an id SQLite can hold: look the task up by id and
      chat, then update by id\<close>
  "complete cid task_id now d =
     (let d' = execute (Select_task task_id cid) d
      in case find (\<lambda>r. id_col r = task_id \<and> chat_id_col r = cid) (rows d) of
           None \<Rightarrow> (Inr Reply_not_found, d')
         | Some _ \<Rightarrow>
             (Inr (Reply_closed task_id),
              execute Commit
                (execute (Update_done task_id) (d'\<lparr>rows := set_done task_id now (rows d)\<rparr>))))"

definition done_handler :: "update \<Rightarrow> str list \<Rightarrow> str \<Rightarrow> db \<Rightarrow> handler_result" where
  \<comment> \<open>\<open>done\<close>, lines 221 to 247\<close>
  "done_handler u args now d =
     (case args of
        [a] \<Rightarrow>
          if \<not> isdigit a then (Inr Reply_done_usage, d)
          else (case py_int a of
                  None \<Rightarrow> (Inl ValueError, d)
                | Some n \<Rightarrow>
                    (case bind_int n of
                       None \<Rightarrow> (Inl OverflowError, d)
                     | Some task_id \<Rightarrow> complete (effective_chat_id u) task_id now d))
      | _ \<Rightarrow> (Inr Reply_done_usage, d))"



section \<open>The specification's words\<close>

definition eq_ignore_case :: "str \<Rightarrow> str \<Rightarrow> bool" where
  \<comment> \<open>\<open>s\<close> equals the lower-case word \<open>w\<close> but for the case of its letters\<close>
  "eq_ignore_case s w =
     list_all2 (\<lambda>c x. c = x \<or> (97 \<le> x \<and> x \<le> 122 \<and> c + 32 = x)) s w"

definition ascii_digit :: "int \<Rightarrow> bool" where
  "ascii_digit c = (48 \<le> c \<and> c \<le> 57)"

definition decimal_value :: "str \<Rightarrow> int" where
  \<comment> \<open>the number a string of the digits 0 to 9 denotes\<close>
  "decimal_value s = foldl (\<lambda>a c. a * 10 + (c - 48)) 0 s"

definition exact_ymd :: "str \<Rightarrow> bool" where
  \<comment> \<open>an exact \<open>YYYY-MM-DD\<close> calendar date: four digits, two digits, two digits, and the
      three numbers are a date of the calendar, whose years are 1 to 9999\<close>
  "exact_ymd s =
     (length s = 10 \<and> list_all ascii_digit (take 4 s) \<and> s ! 4 = of_char CHR ''-''
      \<and> list_all ascii_digit (take 2 (drop 5 s)) \<and> s ! 7 = of_char CHR ''-''
      \<and> list_all ascii_digit (drop 8 s)
      \<and> date_ok (decimal_value (take 4 s)) (decimal_value (take 2 (drop 5 s)))
           (decimal_value (drop 8 s)))"

section \<open>Sample data\<close>

definition sample_row :: "64 word \<Rightarrow> 64 word \<Rightarrow> string \<Rightarrow> string \<Rightarrow> string \<Rightarrow> string option \<Rightarrow> row" where
  \<comment> \<open>a row with the given id, chat, due date, priority, status and completion time\<close>
  "sample_row i c due prio st fin =
     \<lparr>id_col = i, chat_id_col = c, created_by_id_col = 100,
      created_by_username_col = Some (ascii ''@ann''), title_col = ascii ''Ship report'',
      assignee_username_col = ascii ''@bob'', due_date_col = ascii due, priority_col = ascii prio,
      tags_col = Some (ascii ''q1''), status_col = ascii st,
      created_at_col = ascii ''2024-01-01 09:00:00'', completed_at_col = map_option ascii fin\<rparr>"

definition sample_db :: db where
  \<comment> \<open>two chats: an open and a closed task in chat 7, an open task in chat 8\<close>
  "sample_db =
     \<lparr>rows = [sample_row 1 7 ''2024-03-01'' ''high'' ''open'' None,
              sample_row 2 8 ''2024-03-02'' ''low'' ''open'' None,
              sample_row 3 7 ''2024-03-03'' ''low'' ''done'' (Some ''2024-02-01 10:00:00'')],
      executed = []\<rparr>"

definition sample_update :: "64 word \<Rightarrow> update" where
  "sample_update c =
     \<lparr>effective_chat_id = c,
      effective_user = Some \<lparr>user_id = 100, username = Some (ascii ''ann'')\<rparr>\<rparr>"

section \<open>Properties of the string functions\<close>

lemma strip_decomp:
  "\<exists>l r. v = l @ strip v @ r \<and> list_all isspace l \<and> list_all isspace r"
proof -
  define w where "w = dropWhile isspace v"
  have v: "v = takeWhile isspace v @ w"
    by (simp add: w_def)
  have "w = rev (dropWhile isspace (rev w)) @ rev (takeWhile isspace (rev w))"
    by (metis rev_append rev_rev_ident takeWhile_dropWhile_id)
  moreover have "strip v = rev (dropWhile isspace (rev w))"
    by (simp add: strip_def w_def)
  ultimately have w: "w = strip v @ rev (takeWhile isspace (rev w))"
    by simp
  have l: "list_all isspace (takeWhile isspace v)"
    by (simp add: list_all_iff) (meson set_takeWhileD)
  have r: "list_all isspace (rev (takeWhile isspace (rev w)))"
    by (simp add: list_all_iff) (meson set_takeWhileD)
  from v w have "v = takeWhile isspace v @ strip v @ rev (takeWhile isspace (rev w))"
    by simp
  with l r show ?thesis by blast
qed

lemma strip_ends:
  assumes "strip v \<noteq> []"
  shows "\<not> isspace (hd (strip v))" and "\<not> isspace (last (strip v))"
proof -
  define w where "w = dropWhile isspace v"
  define x where "x = dropWhile isspace (rev w)"
  have sx: "strip v = rev x" by (simp add: strip_def w_def x_def)
  with assms have xne: "x \<noteq> []" by simp
  then have "\<not> isspace (hd x)" unfolding x_def by (rule hd_dropWhile)
  then show "\<not> isspace (last (strip v))" using xne by (simp add: sx last_rev)
  from xne have wne: "w \<noteq> []" by (auto simp: x_def)
  then have hw: "\<not> isspace (hd w)" unfolding w_def by (rule hd_dropWhile)
  have "last x = last (rev w)"
    using xne unfolding x_def
    by (metis takeWhile_dropWhile_id last_appendR)
  then have "hd (strip v) = hd w" using xne wne by (simp add: sx hd_rev last_rev)
  with hw show "\<not> isspace (hd (strip v))" by simp
qed

text \<open>
  Claim C9. \<open>normalize_username\<close> removes the white space around its argument and puts
  \<open>@\<close> in front exactly when the trimmed text does not start with it: the result is
  the trimmed text, or \<open>@\<close> and the trimmed text; the trimmed text is the argument
  without a run of white space at each end, and neither begins nor ends with white space.
  \<open>bob\<close>, \<open>@bob\<close> and \<open>bob\<close> between spaces all give \<open>@bob\<close>, and the empty
  string gives \<open>@\<close>.
\<close>

theorem normalize_username_spec:
  "(startswith (strip v) (ascii ''@'') \<longrightarrow> normalize_username v = strip v)
   \<and> (\<not> startswith (strip v) (ascii ''@'') \<longrightarrow> normalize_username v = ascii ''@'' @ strip v)
   \<and> (\<exists>l r. v = l @ strip v @ r \<and> list_all isspace l \<and> list_all isspace r)
   \<and> (strip v \<noteq> [] \<longrightarrow> \<not> isspace (hd (strip v)) \<and> \<not> isspace (last (strip v)))
   \<and> normalize_username (ascii ''bob'') = ascii ''@bob''
   \<and> normalize_username (ascii ''@bob'') = ascii ''@bob''
   \<and> normalize_username (ascii ''  bob  '') = ascii ''@bob''
   \<and> normalize_username (ascii []) = ascii ''@''"
proof -
  have ex: "normalize_username (ascii ''bob'') = ascii ''@bob''"
    "normalize_username (ascii ''@bob'') = ascii ''@bob''"
    "normalize_username (ascii ''  bob  '') = ascii ''@bob''"
    "normalize_username (ascii []) = ascii ''@''"
    by code_simp+
  show ?thesis
    using strip_decomp [of v] strip_ends [of v] ex
    by (simp add: normalize_username_def)
qed

theorem normalize_username_spec_witness:
  "startswith (strip (ascii '' @al '')) (ascii ''@'')
   \<and> normalize_username (ascii '' @al '') = ascii ''@al''
   \<and> \<not> startswith (strip (ascii ''al '')) (ascii ''@'')
   \<and> normalize_username (ascii ''al '') = ascii ''@al''"
proof -
  have a: "startswith (strip (ascii '' @al '')) (ascii ''@'')" by code_simp
  have b: "\<not> startswith (strip (ascii ''al '')) (ascii ''@'')" by code_simp
  have c: "strip (ascii '' @al '') = ascii ''@al''" "strip (ascii ''al '') = ascii ''al''"
    by code_simp+
  show ?thesis
    using normalize_username_spec [of "ascii '' @al ''"]
      normalize_username_spec [of "ascii ''al ''"] a b c
    by (simp add: ascii_def)
qed


section \<open>Properties of the store\<close>

lemma bind_int_sint: "bind_int (sint w) = Some w"
  using sint_ge [of w] sint_lt [of w] by (simp add: bind_int_def)


lemma complete_rows:
  "rows (snd (complete cid task_id now d)) =
     (if \<exists>r\<in>set (rows d). id_col r = task_id \<and> chat_id_col r = cid
      then set_done task_id now (rows d) else rows d)"
proof (cases "find (\<lambda>r. id_col r = task_id \<and> chat_id_col r = cid) (rows d)")
  case None
  then have "\<not> (\<exists>r\<in>set (rows d). id_col r = task_id \<and> chat_id_col r = cid)"
    by (auto simp: find_None_iff)
  with None show ?thesis
    by (auto simp: complete_def execute_def Let_def)
next
  case (Some x)
  then have "\<exists>r\<in>set (rows d). id_col r = task_id \<and> chat_id_col r = cid"
    by (auto simp: find_Some_iff)
  with Some show ?thesis
    by (simp add: complete_def execute_def Let_def)
qed

lemma done_handler_complete:
  assumes "isdigit a" and "py_int a = Some (sint task_id)"
  shows "done_handler u [a] now d = complete (effective_chat_id u) task_id now d"
  using assms by (simp add: done_handler_def bind_int_sint)

subsection \<open>An id that is not in the chat\<close>

lemma complete_absent:
  assumes "\<forall>r\<in>set (rows d). id_col r = task_id \<longrightarrow> chat_id_col r \<noteq> cid"
  shows "fst (complete cid task_id now d) = Inr Reply_not_found"
    and "rows (snd (complete cid task_id now d)) = rows d"
proof -
  from assms have "find (\<lambda>r. id_col r = task_id \<and> chat_id_col r = cid) (rows d) = None"
    by (auto simp: find_None_iff)
  then show "fst (complete cid task_id now d) = Inr Reply_not_found"
    and "rows (snd (complete cid task_id now d)) = rows d"
    by (simp_all add: complete_def execute_def Let_def)
qed

lemma done_handler_absent:
  assumes "\<forall>r\<in>set (rows d). id_col r = task_id \<longrightarrow> chat_id_col r \<noteq> effective_chat_id u"
    and "isdigit a" and "py_int a = Some (sint task_id)"
  shows "fst (done_handler u [a] now d) = Inr Reply_not_found"
    and "rows (snd (done_handler u [a] now d)) = rows d"
  using complete_absent [OF assms(1)] done_handler_complete [OF assms(2,3)] by simp_all


text \<open>
  Claim C4. An id that no task of the chat has is to be answered with "not found", with
  no row changed. For an id SQLite can hold, \<open>complete\<close> does so (\<open>complete_absent\<close>),
  also when a task of another chat has the id. The id 9223372036854775808 is a token of
  decimal digits that \<open>int\<close> reads, and no task has it; but it is beyond the 64 bits of
  SQLite, so the statement does not take it: \<open>done\<close> raises \<open>OverflowError\<close> and sends
  no reply. The rows stay as they are.
\<close>

theorem done_handler_overflow:
  "isdigit (ascii ''9223372036854775808'')
   \<and> py_int (ascii ''9223372036854775808'') = Some 9223372036854775808
   \<and> done_handler u [ascii ''9223372036854775808''] now d = (Inl OverflowError, d)"
proof -
  have a: "isdigit (ascii ''9223372036854775808'')" by code_simp
  have b: "py_int (ascii ''9223372036854775808'') = Some 9223372036854775808" by code_simp
  have c: "bind_int 9223372036854775808 = None" by (simp add: bind_int_def)
  from a b c show ?thesis by (simp add: done_handler_def)
qed

lemma complete_other_chat:
  "\<exists>r\<in>set (rows sample_db). id_col r = 1 \<and> chat_id_col r = 7"
  "fst (complete 8 1 now sample_db) = Inr Reply_not_found"
  "rows (snd (complete 8 1 now sample_db)) = rows sample_db"
proof -
  show "\<exists>r\<in>set (rows sample_db). id_col r = 1 \<and> chat_id_col r = 7"
    by (simp add: sample_db_def sample_row_def)
  have "\<forall>r\<in>set (rows sample_db). id_col r = 1 \<longrightarrow> chat_id_col r \<noteq> 8"
    by (simp add: sample_db_def sample_row_def)
  then show "fst (complete 8 1 now sample_db) = Inr Reply_not_found"
    and "rows (snd (complete 8 1 now sample_db)) = rows sample_db"
    by (rule complete_absent)+
qed

subsection \<open>The listing queries\<close>

lemma mset_insert_row: "mset (insert_row r xs) = add_mset r (mset xs)"
  by (induction xs) simp_all

lemma mset_sort_rows: "mset (sort_rows xs) = mset xs"
  by (induction xs) (simp_all add: sort_rows_def mset_insert_row)

lemma set_sort_rows: "set (sort_rows xs) = set xs"
  using mset_sort_rows [of xs] by (metis set_mset_mset)

lemma order_by_total: "order_by r s \<or> order_by s r"
  by (auto simp: order_by_def)

lemma order_by_trans: "order_by r s \<Longrightarrow> order_by s t \<Longrightarrow> order_by r t"
  unfolding order_by_def
  by (smt (verit, best) order_less_trans order_trans)

lemma set_insert_row: "set (insert_row r xs) = insert r (set xs)"
  using mset_insert_row [of r xs] by (metis set_mset_mset set_mset_add_mset_insert)

lemma sorted_insert_row:
  "sorted_wrt order_by xs \<Longrightarrow> sorted_wrt order_by (insert_row r xs)"
proof (induction xs)
  case Nil
  then show ?case by simp
next
  case (Cons s ss)
  show ?case
  proof (cases "order_by r s")
    case True
    then have "\<forall>t\<in>set ss. order_by r t"
      using Cons.prems order_by_trans by auto
    with True Cons.prems show ?thesis by simp
  next
    case False
    then have "order_by s r" using order_by_total by blast
    with False Cons show ?thesis by (auto simp: set_insert_row)
  qed
qed

lemma sorted_sort_rows: "sorted_wrt order_by (sort_rows xs)"
  by (induction xs) (simp_all add: sort_rows_def sorted_insert_row)

text \<open>
  Claim C6. \<open>list_open\<close> returns exactly the rows of the given chat whose status is
  \<open>open\<close>, each as often as the table holds it: no row of another chat and no closed
  row. When the chat has no open row the result is the empty list, and the handler
  \<open>tasks\<close> answers with a reply (that there are no open tasks), not with an error; it
  leaves the rows as they are.
\<close>

theorem list_open_exact:
  "set (list_open cid rs) = {r \<in> set rs. chat_id_col r = cid \<and> status_col r = ascii ''open''}
   \<and> mset (list_open cid rs)
       = filter_mset (\<lambda>r. chat_id_col r = cid \<and> status_col r = ascii ''open'') (mset rs)
   \<and> ((\<forall>r\<in>set rs. chat_id_col r = cid \<longrightarrow> status_col r \<noteq> ascii ''open'')
        \<longrightarrow> list_open cid rs = [])
   \<and> fst (tasks u d)
       = Inr (if list_open (effective_chat_id u) (rows d) = [] then Reply_no_open_tasks
              else Reply_task_list (list_open (effective_chat_id u) (rows d)))
   \<and> rows (snd (tasks u d)) = rows d"
proof -
  have m: "mset (list_open cid rs)
       = filter_mset (\<lambda>r. chat_id_col r = cid \<and> status_col r = ascii ''open'') (mset rs)"
    by (simp add: list_open_def mset_sort_rows)
  have s: "set (list_open cid rs)
      = {r \<in> set rs. chat_id_col r = cid \<and> status_col r = ascii ''open''}"
    by (simp add: list_open_def set_sort_rows)
  have e: "(\<forall>r\<in>set rs. chat_id_col r = cid \<longrightarrow> status_col r \<noteq> ascii ''open'')
      \<longrightarrow> list_open cid rs = []"
  proof
    assume "\<forall>r\<in>set rs. chat_id_col r = cid \<longrightarrow> status_col r \<noteq> ascii ''open''"
    with s have "set (list_open cid rs) = {}" by auto
    then show "list_open cid rs = []" by simp
  qed
  have t: "fst (tasks u d)
       = Inr (if list_open (effective_chat_id u) (rows d) = [] then Reply_no_open_tasks
              else Reply_task_list (list_open (effective_chat_id u) (rows d)))"
     "rows (snd (tasks u d)) = rows d"
    by (simp_all add: tasks_def Let_def execute_def)
  from m s e t show ?thesis by blast
qed

theorem list_open_exact_witness:
  "list_open 7 (rows sample_db) = [sample_row 1 7 ''2024-03-01'' ''high'' ''open'' None]
   \<and> \<not> (\<exists>r\<in>set (rows sample_db). chat_id_col r = 9 \<and> status_col r = ascii ''open'')
   \<and> list_open 9 (rows sample_db) = []
   \<and> fst (tasks (sample_update 9) sample_db) = Inr Reply_no_open_tasks"
proof -
  have h: "\<forall>r\<in>set (rows sample_db). chat_id_col r = 9 \<longrightarrow> status_col r \<noteq> ascii ''open''"
    by (simp add: sample_db_def sample_row_def)
  have a: "list_open 7 (rows sample_db) = [sample_row 1 7 ''2024-03-01'' ''high'' ''open'' None]"
    by (simp add: list_open_def sort_rows_def sample_db_def sample_row_def ascii_def)
  have c: "effective_chat_id (sample_update 9) = 9"
    by (simp add: sample_update_def)
  show ?thesis
    using list_open_exact [of 9 "rows sample_db" "sample_update 9" sample_db] h a c
    by simp
qed

subsection \<open>Closing a task\<close>

lemma set_done_closed:
  assumes "r' \<in> set (set_done t now rs)" and "id_col r' = t"
  shows "status_col r' = ascii ''done'' \<and> completed_at_col r' = Some now"
proof -
  from assms(1) obtain r0 where r0: "r0 \<in> set rs"
    and r': "r' = (if id_col r0 = t
        then r0\<lparr>status_col := ascii ''done'', completed_at_col := Some now\<rparr> else r0)"
    unfolding set_done_def by auto
  show ?thesis
  proof (cases "id_col r0 = t")
    case True
    with r' show ?thesis by simp
  next
    case False
    with r' assms(2) show ?thesis by simp
  qed
qed

lemma open_not_done: "ascii ''done'' \<noteq> ascii ''open''"
  by (simp add: ascii_def)

text \<open>
  Claim C7. For an open row of the given chat, \<open>complete\<close> with its id answers that
  the task is closed; afterwards the row is in the table with status \<open>done\<close> and a
  completion time that is not null (the current time), every row with that id is so, and
  \<open>list_open\<close> for the chat returns no row with that id. The handler \<open>done\<close> called
  with the id as its one argument does the same.
\<close>

theorem complete_open_task:
  assumes "r \<in> set (rows d)" and "id_col r = task_id" and "chat_id_col r = cid"
    and "status_col r = ascii ''open''"
  shows "fst (complete cid task_id now d) = Inr (Reply_closed task_id)
    \<and> r\<lparr>status_col := ascii ''done'', completed_at_col := Some now\<rparr>
        \<in> set (rows (snd (complete cid task_id now d)))
    \<and> (\<forall>r'\<in>set (rows (snd (complete cid task_id now d))).
          id_col r' = task_id \<longrightarrow> status_col r' = ascii ''done'' \<and> completed_at_col r' = Some now)
    \<and> (\<forall>r'\<in>set (list_open cid (rows (snd (complete cid task_id now d)))). id_col r' \<noteq> task_id)
    \<and> (isdigit a \<and> py_int a = Some (sint task_id) \<and> effective_chat_id u = cid \<longrightarrow>
          done_handler u [a] now d = complete cid task_id now d)"
proof -
  from assms have ex: "\<exists>x\<in>set (rows d). id_col x = task_id \<and> chat_id_col x = cid"
    by blast
  then obtain x where "find (\<lambda>r. id_col r = task_id \<and> chat_id_col r = cid) (rows d) = Some x"
    by (cases "find (\<lambda>r. id_col r = task_id \<and> chat_id_col r = cid) (rows d)")
       (auto simp: find_None_iff)
  then have f: "fst (complete cid task_id now d) = Inr (Reply_closed task_id)"
    by (simp add: complete_def Let_def)
  have rw: "rows (snd (complete cid task_id now d)) = set_done task_id now (rows d)"
    using ex by (simp add: complete_rows)
  have i: "r\<lparr>status_col := ascii ''done'', completed_at_col := Some now\<rparr>
        \<in> set (set_done task_id now (rows d))"
    using assms(1,2) by (force simp: set_done_def)
  have a: "\<forall>r'\<in>set (set_done task_id now (rows d)).
          id_col r' = task_id \<longrightarrow> status_col r' = ascii ''done'' \<and> completed_at_col r' = Some now"
    using set_done_closed by blast
  have l: "\<forall>r'\<in>set (list_open cid (set_done task_id now (rows d))). id_col r' \<noteq> task_id"
  proof
    fix r' assume "r' \<in> set (list_open cid (set_done task_id now (rows d)))"
    then have "r' \<in> set (set_done task_id now (rows d))" and "status_col r' = ascii ''open''"
      by (simp_all add: list_open_def set_sort_rows)
    with a open_not_done show "id_col r' \<noteq> task_id" by auto
  qed
  have h: "isdigit a \<and> py_int a = Some (sint task_id) \<and> effective_chat_id u = cid \<longrightarrow>
          done_handler u [a] now d = complete cid task_id now d"
    using done_handler_complete by blast
  from f i a l h show ?thesis unfolding rw by blast
qed

theorem complete_open_task_witness:
  "sample_row 1 7 ''2024-03-01'' ''high'' ''open'' None \<in> set (rows sample_db)
   \<and> isdigit (ascii ''1'') \<and> py_int (ascii ''1'') = Some (sint (1 :: 64 word))
   \<and> fst (done_handler (sample_update 7) [ascii ''1''] (ascii ''2024-02-02 12:00:00'') sample_db)
       = Inr (Reply_closed 1)
   \<and> sample_row 1 7 ''2024-03-01'' ''high'' ''done'' (Some ''2024-02-02 12:00:00'')
       \<in> set (rows (snd (done_handler (sample_update 7) [ascii ''1'']
                 (ascii ''2024-02-02 12:00:00'') sample_db)))
   \<and> list_open 7 (rows (snd (done_handler (sample_update 7) [ascii ''1'']
                 (ascii ''2024-02-02 12:00:00'') sample_db))) = []"
proof -
  let ?r = "sample_row 1 7 ''2024-03-01'' ''high'' ''open'' None"
  let ?now = "ascii ''2024-02-02 12:00:00''"
  have m: "?r \<in> set (rows sample_db)" by (simp add: sample_db_def)
  have p: "id_col ?r = 1" "chat_id_col ?r = 7" "status_col ?r = ascii ''open''"
    by (simp_all add: sample_row_def)
  have d: "isdigit (ascii ''1'')" "py_int (ascii ''1'') = Some 1" by code_simp+
  have c: "effective_chat_id (sample_update 7) = 7" by (simp add: sample_update_def)
  have u: "?r\<lparr>status_col := ascii ''done'', completed_at_col := Some ?now\<rparr>
      = sample_row 1 7 ''2024-03-01'' ''high'' ''done'' (Some ''2024-02-02 12:00:00'')"
    by (simp add: sample_row_def)
  have e: "list_open 7 (rows (snd (complete 7 1 ?now sample_db))) = []"
    by (simp add: complete_rows set_done_def list_open_def sort_rows_def sample_db_def
        sample_row_def ascii_def)
  show ?thesis
    using complete_open_task [OF m p, of ?now "ascii ''1''" "sample_update 7"] m d c u e
    by simp
qed


subsection \<open>The order of the listings\<close>

lemma list_open_sorted: "sorted_wrt order_by (list_open cid rs)"
  by (simp add: list_open_def sorted_sort_rows)

lemma list_open_for_assignee_sorted: "sorted_wrt order_by (list_open_for_assignee cid h rs)"
  by (simp add: list_open_for_assignee_def sorted_sort_rows)

text \<open>
  Claim C1. The listings are to be ordered by due date, then by priority with
  \<open>high\<close> before \<open>medium\<close> before \<open>low\<close>, then by descending id. The queries order the
  priority column as text, descending, so among three open tasks of one chat with the same
  due date \<open>medium\<close> comes first, then \<open>low\<close>, then \<open>high\<close>, for \<open>list_open\<close> and
  for \<open>list_open_for_assignee\<close> alike.
\<close>

theorem list_open_priority_text_order:
  "list_open 7 [sample_row 3 7 ''2024-05-01'' ''high'' ''open'' None,
                sample_row 2 7 ''2024-05-01'' ''low'' ''open'' None,
                sample_row 1 7 ''2024-05-01'' ''medium'' ''open'' None]
     = [sample_row 1 7 ''2024-05-01'' ''medium'' ''open'' None,
        sample_row 2 7 ''2024-05-01'' ''low'' ''open'' None,
        sample_row 3 7 ''2024-05-01'' ''high'' ''open'' None]
   \<and> list_open_for_assignee 7 (ascii ''@bob'')
         [sample_row 3 7 ''2024-05-01'' ''high'' ''open'' None,
          sample_row 1 7 ''2024-05-01'' ''medium'' ''open'' None]
     = [sample_row 1 7 ''2024-05-01'' ''medium'' ''open'' None,
        sample_row 3 7 ''2024-05-01'' ''high'' ''open'' None]"
  by (simp add: list_open_def list_open_for_assignee_def sort_rows_def order_by_def
      sample_row_def ascii_def)

subsection \<open>The argument of \<open>done\<close>\<close>

text \<open>
  Claim C10. An argument list that is not one token of decimal digits is to be answered
  with the usage message, without touching the store. The token that is the single
  character superscript two is not a decimal digit, yet it passes \<open>isdigit\<close>; \<open>int\<close>
  then raises \<open>ValueError\<close>: the handler sends no reply (the store is not touched).
\<close>

theorem done_handler_superscript:
  "isdigit [0xB2] \<and> \<not> list_all isdecimal_char [0xB2]
   \<and> done_handler u [[0xB2]] now d = (Inl ValueError, d)"
proof -
  have a: "isdigit [0xB2]" by code_simp
  have b: "\<not> list_all isdecimal_char [0xB2]" by code_simp
  have c: "py_int [0xB2] = None" by code_simp
  from a b c show ?thesis by (simp add: done_handler_def)
qed

lemma done_handler_usage:
  assumes "length args \<noteq> 1 \<or> \<not> isdigit (hd args)"
  shows "done_handler u args now d = (Inr Reply_done_usage, d)"
proof (cases args)
  case Nil
  then show ?thesis by (simp add: done_handler_def)
next
  case (Cons a as)
  show ?thesis
  proof (cases as)
    case Nil
    with Cons assms show ?thesis by (simp add: done_handler_def)
  next
    case (Cons b bs)
    with \<open>args = a # as\<close> show ?thesis by (simp add: done_handler_def)
  qed
qed

lemma done_handler_minus_one:
  "done_handler u [ascii ''-1''] now d = (Inr Reply_done_usage, d)"
proof -
  have "\<not> isdigit (ascii ''-1'')" by code_simp
  then show ?thesis by (simp add: done_handler_def)
qed

subsection \<open>Status and completion time\<close>


lemma recomplete_any:
  assumes "r \<in> set (rows d)" and "id_col r = task_id" and "chat_id_col r = cid"
  shows "r\<lparr>status_col := ascii ''done'', completed_at_col := Some now\<rparr>
      \<in> set (rows (snd (complete cid task_id now d)))"
proof -
  from assms have "\<exists>x\<in>set (rows d). id_col x = task_id \<and> chat_id_col x = cid"
    by blast
  then have "rows (snd (complete cid task_id now d)) = set_done task_id now (rows d)"
    by (simp add: complete_rows)
  moreover have "r\<lparr>status_col := ascii ''done'', completed_at_col := Some now\<rparr>
        \<in> set (set_done task_id now (rows d))"
    using assms(1,2) by (force simp: set_done_def)
  ultimately show ?thesis by simp
qed









section \<open>Properties of \<open>parse_task_input\<close>\<close>

lemma split_nonempty: "split c s \<noteq> []"
  by (induction s) (auto split: list.splits)

lemma length_split: "length (split c s) = Suc (count_list s (of_char c))"
  by (induction s) (auto split: list.splits simp: split_nonempty)

lemma join_split: "join [of_char c] (split c s) = s"
proof (induction s)
  case Nil
  then show ?case by simp
next
  case (Cons x xs)
  obtain p ps where p: "split c xs = p # ps"
    using split_nonempty [of c xs] by (cases "split c xs") auto
  with Cons show ?case by (cases ps) auto
qed

lemma split_no_sep: "p \<in> set (split c s) \<Longrightarrow> of_char c \<notin> set p"
proof (induction s arbitrary: p)
  case Nil
  then show ?case by simp
next
  case (Cons x xs)
  obtain q qs where q: "split c xs = q # qs"
    using split_nonempty [of c xs] by (cases "split c xs") auto
  with Cons show ?case by (auto split: if_splits)
qed

lemma parse_not_five:
  assumes "length (split CHR ''|'' raw) \<noteq> 5"
  shows "parse_task_input raw = Inl Usage_format"
proof -
  have "map strip (split CHR ''|'' raw) \<noteq> [t, a, d, p, g]" for t a d p g
  proof
    assume "map strip (split CHR ''|'' raw) = [t, a, d, p, g]"
    then have "length (map strip (split CHR ''|'' raw)) = length [t, a, d, p, g]"
      by simp
    with assms show False by simp
  qed
  then show ?thesis
    by (simp add: parse_task_input_def Let_def split: list.splits)
qed

lemma parse_five:
  "map strip (split CHR ''|'' raw) = [t, a, d, p, g] \<Longrightarrow>
   parse_task_input raw =
     (if t = [] then Inl Empty_title
      else if strptime_ymd d = None then Inl Bad_date
      else if lower p \<notin> {ascii ''low'', ascii ''medium'', ascii ''high''} then Inl Bad_priority
      else Inr \<lparr>title = t, assignee = normalize_username a, due_date = d,
                priority = lower p, tags = g\<rparr>)"
  by (simp add: parse_task_input_def Let_def split: option.splits)

lemma parse_five_exists:
  assumes "length (split CHR ''|'' raw) = 5"
  shows "\<exists>t a d p g. map strip (split CHR ''|'' raw) = [t, a, d, p, g]"
proof -
  from assms have "length (map strip (split CHR ''|'' raw)) = Suc (Suc (Suc (Suc (Suc 0))))"
    by simp
  then show ?thesis
    by (auto simp: length_Suc_conv)
qed

lemma normalize_username_at: "startswith (normalize_username v) (ascii ''@'')"
  by (simp add: normalize_username_def startswith_def Let_def ascii_def)

text \<open>
  Claim C5. \<open>parse_task_input\<close> cuts the text at every \<open>|\<close> (one field more than
  there are bars, and the fields joined by bars are the text again) and trims each field.
  With a number of fields other than five the result is the usage error. With five fields
  the checks run from left to right and the first that fails decides: an empty title, then
  a due date \<open>strptime\<close> rejects, then a priority that is none of the three words; the
  assignee and the tags are never rejected. Only when no check fails is a task produced,
  with all five fields set; a task that is produced has a title, an assignee that starts
  with \<open>@\<close>, a due date \<open>strptime\<close> accepts and one of the three priorities.
\<close>

theorem parse_task_input_order:
  "length (split CHR ''|'' raw) = Suc (count_list raw (of_char CHR ''|''))
   \<and> join (ascii ''|'') (split CHR ''|'' raw) = raw
   \<and> (length (split CHR ''|'' raw) \<noteq> 5 \<longrightarrow> parse_task_input raw = Inl Usage_format)
   \<and> (length (split CHR ''|'' raw) = 5 \<longrightarrow>
        (\<exists>t a d p g. map strip (split CHR ''|'' raw) = [t, a, d, p, g]))
   \<and> (\<forall>t a d p g. map strip (split CHR ''|'' raw) = [t, a, d, p, g] \<longrightarrow>
        parse_task_input raw =
          (if t = [] then Inl Empty_title
           else if strptime_ymd d = None then Inl Bad_date
           else if lower p \<notin> {ascii ''low'', ascii ''medium'', ascii ''high''}
             then Inl Bad_priority
           else Inr \<lparr>title = t, assignee = normalize_username a, due_date = d,
                     priority = lower p, tags = g\<rparr>))
   \<and> (\<forall>task. parse_task_input raw = Inr task \<longrightarrow>
        title task \<noteq> [] \<and> startswith (assignee task) (ascii ''@'')
        \<and> strptime_ymd (due_date task) \<noteq> None
        \<and> priority task \<in> {ascii ''low'', ascii ''medium'', ascii ''high''})"
proof -
  have a: "length (split CHR ''|'' raw) = Suc (count_list raw (of_char CHR ''|''))"
    by (rule length_split)
  have b: "join (ascii ''|'') (split CHR ''|'' raw) = raw"
    using join_split [of "CHR ''|''" raw] by (simp add: ascii_def)
  have c: "length (split CHR ''|'' raw) \<noteq> 5 \<longrightarrow> parse_task_input raw = Inl Usage_format"
    using parse_not_five by blast
  have d: "length (split CHR ''|'' raw) = 5 \<longrightarrow>
        (\<exists>t a d p g. map strip (split CHR ''|'' raw) = [t, a, d, p, g])"
    using parse_five_exists by blast
  have e: "\<forall>t a d p g. map strip (split CHR ''|'' raw) = [t, a, d, p, g] \<longrightarrow>
        parse_task_input raw =
          (if t = [] then Inl Empty_title
           else if strptime_ymd d = None then Inl Bad_date
           else if lower p \<notin> {ascii ''low'', ascii ''medium'', ascii ''high''}
             then Inl Bad_priority
           else Inr \<lparr>title = t, assignee = normalize_username a, due_date = d,
                     priority = lower p, tags = g\<rparr>)"
    by (intro allI impI) (rule parse_five)
  have f: "\<forall>task. parse_task_input raw = Inr task \<longrightarrow>
        title task \<noteq> [] \<and> startswith (assignee task) (ascii ''@'')
        \<and> strptime_ymd (due_date task) \<noteq> None
        \<and> priority task \<in> {ascii ''low'', ascii ''medium'', ascii ''high''}"
  proof (intro allI impI)
    fix task assume r: "parse_task_input raw = Inr task"
    then have "length (split CHR ''|'' raw) = 5"
      using parse_not_five [of raw] by auto
    then have "\<exists>t a d p g. map strip (split CHR ''|'' raw) = [t, a, d, p, g]"
      by (rule parse_five_exists)
    then obtain t a d p g where p: "map strip (split CHR ''|'' raw) = [t, a, d, p, g]"
      by auto
    from r show "title task \<noteq> [] \<and> startswith (assignee task) (ascii ''@'')
        \<and> strptime_ymd (due_date task) \<noteq> None
        \<and> priority task \<in> {ascii ''low'', ascii ''medium'', ascii ''high''}"
      unfolding parse_five [OF p]
      by (auto simp: normalize_username_at split: if_splits)
  qed
  from a b c d e f show ?thesis by blast
qed

theorem parse_task_input_order_witness:
  "parse_task_input (ascii ''Ship report | alice | 2024-03-01 | high | urgent,q1'')
     = Inr \<lparr>title = ascii ''Ship report'', assignee = ascii ''@alice'',
            due_date = ascii ''2024-03-01'', priority = ascii ''high'',
            tags = ascii ''urgent,q1''\<rparr>
   \<and> parse_task_input (ascii '' | alice | tomorrow | urgent | tag'') = Inl Empty_title"
proof -
  let ?a = "ascii ''Ship report | alice | 2024-03-01 | high | urgent,q1''"
  let ?b = "ascii '' | alice | tomorrow | urgent | tag''"
  have s: "map strip (split CHR ''|'' ?a)
      = [ascii ''Ship report'', ascii ''alice'', ascii ''2024-03-01'', ascii ''high'',
         ascii ''urgent,q1'']"
    "map strip (split CHR ''|'' ?b)
      = [[], ascii ''alice'', ascii ''tomorrow'', ascii ''urgent'', ascii ''tag'']"
    by code_simp+
  have v: "strptime_ymd (ascii ''2024-03-01'') \<noteq> None"
    "lower (ascii ''high'') = ascii ''high''"
    "normalize_username (ascii ''alice'') = ascii ''@alice''"
    by code_simp+
  have n: "ascii ''Ship report'' \<noteq> []" by (simp add: ascii_def)
  note a = parse_task_input_order [of ?a, THEN conjunct2, THEN conjunct2, THEN conjunct2,
      THEN conjunct2, THEN conjunct1, rule_format, OF s(1)]
  note b = parse_task_input_order [of ?b, THEN conjunct2, THEN conjunct2, THEN conjunct2,
      THEN conjunct2, THEN conjunct1, rule_format, OF s(2)]
  from a v n have "parse_task_input ?a = Inr \<lparr>title = ascii ''Ship report'',
      assignee = ascii ''@alice'', due_date = ascii ''2024-03-01'', priority = ascii ''high'',
      tags = ascii ''urgent,q1''\<rparr>"
    by simp
  moreover from b have "parse_task_input ?b = Inl Empty_title"
    by simp
  ultimately show ?thesis by simp
qed


subsection \<open>The priority field\<close>

lemma find_in: "find P xs = Some x \<Longrightarrow> x \<in> set xs \<and> P x"
  by (induction xs) (auto split: if_splits)

lemma lower_runs_ascii: "\<exists>rest. lower_runs = (65, 90, 1, 97) # rest"
  by (simp add: lower_runs_def)

lemma lower_runs_targets:
  "list_all (\<lambda>(lo, hi, st, t). (lo = 65 \<and> hi = 90 \<and> st = 1 \<and> t = 97)
      \<or> t + (hi - lo) < 97 \<or> 122 < t \<or> (lo = hi \<and> t = 107)) lower_runs"
  by code_simp

lemma lower_runs_sources:
  "list_all (\<lambda>(lo, hi, st, t). hi < 97 \<or> 122 < lo) lower_runs"
  by code_simp

lemma lower_cp_capital:
  assumes "65 \<le> c" and "c \<le> 90"
  shows "lower_cp c = [c + 32]"
proof -
  from lower_runs_ascii obtain rest where r: "lower_runs = (65, 90, 1, 97) # rest" ..
  from assms have "find (\<lambda>(lo, hi, st, t). lo \<le> c \<and> c \<le> hi \<and> (c - lo) mod st = 0) lower_runs
      = Some (65, 90, 1, 97)"
    unfolding r by simp
  with assms show ?thesis by (simp add: lower_cp_def)
qed

lemma lower_cp_small:
  assumes "97 \<le> c" and "c \<le> 122"
  shows "lower_cp c = [c]"
proof -
  have "find (\<lambda>(lo, hi, st, t). lo \<le> c \<and> c \<le> hi \<and> (c - lo) mod st = 0) lower_runs = None"
    unfolding find_None_iff using lower_runs_sources assms by (auto simp: list_all_iff)
  with assms show ?thesis by (simp add: lower_cp_def)
qed

lemma lower_cp_letters:
  assumes "\<forall>x\<in>set (lower_cp c). 97 \<le> x \<and> x \<le> 122 \<and> x \<noteq> 107"
  shows "\<exists>x. lower_cp c = [x] \<and> (c = x \<or> c + 32 = x)"
proof (cases "c = 0x130")
  case True
  with assms show ?thesis by (simp add: lower_cp_def)
next
  case False
  show ?thesis
  proof (cases "find (\<lambda>(lo, hi, st, t). lo \<le> c \<and> c \<le> hi \<and> (c - lo) mod st = 0) lower_runs")
    case None
    with False show ?thesis by (simp add: lower_cp_def)
  next
    case (Some r)
    obtain lo hi st t where r: "r = (lo, hi, st, t)" by (cases r) auto
    from find_in [OF Some] have m: "r \<in> set lower_runs" and b: "lo \<le> c" "c \<le> hi"
      by (simp_all add: r)
    from Some False have l: "lower_cp c = [t + (c - lo)]"
      by (simp add: lower_cp_def r)
    with assms have x: "97 \<le> t + (c - lo)" "t + (c - lo) \<le> 122" "t + (c - lo) \<noteq> 107"
      by simp_all
    from m lower_runs_targets have "(lo = 65 \<and> hi = 90 \<and> st = 1 \<and> t = 97)
      \<or> t + (hi - lo) < 97 \<or> 122 < t \<or> (lo = hi \<and> t = 107)"
      by (auto simp: list_all_iff r)
    with b x have "lo = 65 \<and> t = 97" by auto
    with l show ?thesis by auto
  qed
qed

lemma lower_at_letters:
  assumes "\<forall>x\<in>set (lower_at s i). 97 \<le> x \<and> x \<le> 122 \<and> x \<noteq> 107"
  shows "\<exists>x. lower_at s i = [x] \<and> (s ! i = x \<or> s ! i + 32 = x)"
proof (cases "s ! i = 0x3A3")
  case True
  with assms show ?thesis by (simp add: lower_at_def split: if_splits)
next
  case False
  with assms lower_cp_letters [of "s ! i"] show ?thesis by (simp add: lower_at_def)
qed

lemma lower_at_same:
  assumes "s ! i = x \<or> (97 \<le> x \<and> x \<le> 122 \<and> s ! i + 32 = x)" and "97 \<le> x" and "x \<le> 122"
  shows "lower_at s i = [x]"
proof -
  from assms have n: "s ! i \<noteq> 0x3A3" by auto
  from assms(1) show ?thesis
  proof
    assume "s ! i = x"
    with n assms(2,3) show ?thesis by (simp add: lower_at_def lower_cp_small)
  next
    assume "97 \<le> x \<and> x \<le> 122 \<and> s ! i + 32 = x"
    then have "65 \<le> s ! i" "s ! i \<le> 90" "s ! i + 32 = x" by auto
    with n show ?thesis by (simp add: lower_at_def lower_cp_capital)
  qed
qed

lemma concat_singletons: "concat (map (\<lambda>i. [f i]) xs) = map f xs"
  by (induction xs) simp_all

lemma lower_eq_word:
  assumes "list_all (\<lambda>x. 97 \<le> x \<and> x \<le> 122 \<and> x \<noteq> 107) w"
  shows "(lower s = w) = eq_ignore_case s w"
proof
  assume e: "lower s = w"
  have one: "\<exists>x. lower_at s i = [x] \<and> (s ! i = x \<or> s ! i + 32 = x)" if "i < length s" for i
  proof -
    from that have "set (lower_at s i) \<subseteq> set (lower s)"
      by (auto simp: lower_def)
    with e assms have "\<forall>x\<in>set (lower_at s i). 97 \<le> x \<and> x \<le> 122 \<and> x \<noteq> 107"
      by (auto simp: list_all_iff)
    then show ?thesis by (rule lower_at_letters)
  qed
  have hd: "lower_at s i = [hd (lower_at s i)]" if "i < length s" for i
    using one [OF that] by auto
  have "map (lower_at s) [0..<length s] = map (\<lambda>i. [hd (lower_at s i)]) [0..<length s]"
    by (rule map_cong [OF refl], rule hd) simp
  then have "lower s = map (\<lambda>i. hd (lower_at s i)) [0..<length s]"
    unfolding lower_def by (simp only: concat_singletons)
  with e have w: "w = map (\<lambda>i. hd (lower_at s i)) [0..<length s]"
    by simp
  then have len: "length s = length w" by simp
  have "s ! i = w ! i \<or> (97 \<le> w ! i \<and> w ! i \<le> 122 \<and> s ! i + 32 = w ! i)"
    if "i < length s" for i
  proof -
    from one [OF that] obtain x where x: "lower_at s i = [x]" "s ! i = x \<or> s ! i + 32 = x"
      by blast
    from w that have wi: "w ! i = x" by (simp add: x(1))
    from that len assms have "97 \<le> w ! i \<and> w ! i \<le> 122"
      by (simp add: list_all_length)
    with x(2) wi show ?thesis by auto
  qed
  with len show "eq_ignore_case s w"
    by (simp add: eq_ignore_case_def list_all2_conv_all_nth)
next
  assume "eq_ignore_case s w"
  then have len: "length s = length w"
    and r: "\<And>i. i < length s \<Longrightarrow>
      s ! i = w ! i \<or> (97 \<le> w ! i \<and> w ! i \<le> 122 \<and> s ! i + 32 = w ! i)"
    by (simp_all add: eq_ignore_case_def list_all2_conv_all_nth)
  have "lower_at s i = [w ! i]" if "i < length s" for i
  proof -
    from that len assms have "97 \<le> w ! i" "w ! i \<le> 122"
      by (simp_all add: list_all_length)
    with r [OF that] show ?thesis by (intro lower_at_same) auto
  qed
  then have "map (lower_at s) [0..<length s] = map (\<lambda>i. [w ! i]) [0..<length s]"
    by (intro map_cong [OF refl]) simp
  then have "lower s = map (\<lambda>i. w ! i) [0..<length s]"
    unfolding lower_def by (simp only: concat_singletons)
  with len show "lower s = w" by (simp add: map_nth)
qed

lemma words_lower:
  "list_all (\<lambda>x. 97 \<le> x \<and> x \<le> 122 \<and> x \<noteq> 107) (ascii ''low'')"
  "list_all (\<lambda>x. 97 \<le> x \<and> x \<le> 122 \<and> x \<noteq> 107) (ascii ''medium'')"
  "list_all (\<lambda>x. 97 \<le> x \<and> x \<le> 122 \<and> x \<noteq> 107) (ascii ''high'')"
  by (simp_all add: ascii_def)

text \<open>
  Claim C8. For an input of five fields whose title is not empty and whose date is
  accepted: when the fourth field equals \<open>low\<close>, \<open>medium\<close> or \<open>high\<close> but for the case
  of its letters, a task is produced and its priority is that word in lower case; when it
  equals none of the three, the result is the priority error.
\<close>

theorem parse_priority:
  assumes "map strip (split CHR ''|'' raw) = [t, a, d, p, g]" and "t \<noteq> []"
    and "strptime_ymd d \<noteq> None"
  shows "(w \<in> {ascii ''low'', ascii ''medium'', ascii ''high''} \<and> eq_ignore_case p w \<longrightarrow>
           (\<exists>task. parse_task_input raw = Inr task \<and> priority task = w))
     \<and> (\<not> eq_ignore_case p (ascii ''low'') \<and> \<not> eq_ignore_case p (ascii ''medium'')
          \<and> \<not> eq_ignore_case p (ascii ''high'') \<longrightarrow> parse_task_input raw = Inl Bad_priority)"
proof -
  have e: "eq_ignore_case p (ascii ''low'') = (lower p = ascii ''low'')"
    "eq_ignore_case p (ascii ''medium'') = (lower p = ascii ''medium'')"
    "eq_ignore_case p (ascii ''high'') = (lower p = ascii ''high'')"
    using words_lower by (simp_all add: lower_eq_word)
  show ?thesis
    unfolding parse_five [OF assms(1)] using assms(2,3) e by auto
qed

theorem parse_priority_witness:
  "eq_ignore_case (ascii ''HiGh'') (ascii ''high'')
   \<and> (\<exists>task. parse_task_input (ascii ''Ship report | alice | 2024-03-01 | HiGh | q1'') = Inr task
         \<and> priority task = ascii ''high'')
   \<and> \<not> eq_ignore_case (ascii ''urgent'') (ascii ''low'')
   \<and> \<not> eq_ignore_case (ascii ''urgent'') (ascii ''medium'')
   \<and> \<not> eq_ignore_case (ascii ''urgent'') (ascii ''high'')
   \<and> parse_task_input (ascii ''Ship report | alice | 2024-03-01 | urgent | tag'') = Inl Bad_priority"
proof -
  let ?a = "ascii ''Ship report | alice | 2024-03-01 | HiGh | q1''"
  let ?b = "ascii ''Ship report | alice | 2024-03-01 | urgent | tag''"
  have s: "map strip (split CHR ''|'' ?a)
      = [ascii ''Ship report'', ascii ''alice'', ascii ''2024-03-01'', ascii ''HiGh'', ascii ''q1'']"
    "map strip (split CHR ''|'' ?b)
      = [ascii ''Ship report'', ascii ''alice'', ascii ''2024-03-01'', ascii ''urgent'',
         ascii ''tag'']"
    by code_simp+
  have t: "ascii ''Ship report'' \<noteq> []" by (simp add: ascii_def)
  have v: "strptime_ymd (ascii ''2024-03-01'') \<noteq> None" by code_simp
  have c: "eq_ignore_case (ascii ''HiGh'') (ascii ''high'')"
    "\<not> eq_ignore_case (ascii ''urgent'') (ascii ''low'')"
    "\<not> eq_ignore_case (ascii ''urgent'') (ascii ''medium'')"
    "\<not> eq_ignore_case (ascii ''urgent'') (ascii ''high'')"
    by code_simp+
  show ?thesis
    using parse_priority [OF s(1) t v, of "ascii ''high''"]
      parse_priority [OF s(2) t v, of "ascii ''low''"] c
    by simp
qed


subsection \<open>The date field\<close>

lemma decimal_zeros_ascii: "\<exists>rest. decimal_zeros = 48 # rest"
  by (simp add: decimal_zeros_def)

lemma ascii_digit_decimal:
  assumes "ascii_digit c"
  shows "decimal_of c = Some (c - 48)"
proof -
  from decimal_zeros_ascii obtain rest where r: "decimal_zeros = 48 # rest" ..
  from assms have "find (\<lambda>z. z \<le> c \<and> c \<le> z + 9) decimal_zeros = Some 48"
    unfolding r by (simp add: ascii_digit_def)
  then show ?thesis by (simp add: decimal_of_def)
qed

lemma ascii_digit_facts:
  assumes "ascii_digit c"
  shows "isdecimal_char c" and "digit_val c = c - 48" and "\<not> int_space c"
    and "c \<noteq> of_char CHR ''-''" and "c \<noteq> of_char CHR ''+''" and "c \<noteq> of_char CHR ''_''"
  using assms ascii_digit_decimal [OF assms]
  by (auto simp: isdecimal_char_def digit_val_def int_space_def in_ranges_def
      int_space_ranges_def ascii_digit_def)

lemma int_digits_ascii:
  "list_all ascii_digit s \<Longrightarrow>
   int_digits acc s = Some (foldl (\<lambda>a c. a * 10 + (c - 48)) acc s)"
  by (induction s arbitrary: acc) (simp_all add: ascii_digit_facts)

lemma digit_count_le: "foldl (\<lambda>n c. if isdecimal_char c then n + 1 else n) k s \<le> k + int (length s)"
proof (induction s arbitrary: k)
  case Nil
  then show ?case by simp
next
  case (Cons c cs)
  from Cons [of "k + 1"] Cons [of k] show ?case by simp
qed

lemma py_int_ascii:
  assumes "list_all ascii_digit s" and "s \<noteq> []" and "length s \<le> 4300"
  shows "py_int s = Some (decimal_value s)"
proof -
  from assms obtain c cs where s: "s = c # cs" by (cases s) auto
  with assms have c: "ascii_digit c" and cs: "list_all ascii_digit cs" by simp_all
  from assms have "ascii_digit (last s)" by (simp add: list_all_iff)
  then have "\<not> int_space (hd (rev s))"
    using assms(2) by (simp add: hd_rev ascii_digit_facts)
  then have a: "dropWhile int_space (rev s) = rev s"
    by (simp add: dropWhile_eq_self_iff)
  have b: "dropWhile int_space s = s"
    using c by (simp add: s ascii_digit_facts)
  have "digit_count s \<le> 0 + int (length s)"
    unfolding digit_count_def by (rule digit_count_le)
  with assms(3) have n: "digit_count (c # cs) \<le> 4300" by (simp add: s)
  have "int_unsigned (c # cs) = Some (foldl (\<lambda>a c. a * 10 + (c - 48)) (c - 48) cs)"
    using c n by (simp add: int_unsigned_def ascii_digit_facts int_digits_ascii [OF cs])
  moreover have "rev (dropWhile int_space (rev (dropWhile int_space s))) = c # cs"
    unfolding b a by (simp add: s)
  ultimately have "py_int s = Some (foldl (\<lambda>a c. a * 10 + (c - 48)) (c - 48) cs)"
    unfolding py_int_def using c by (auto simp: ascii_digit_def)
  then show ?thesis
    by (simp add: decimal_value_def s)
qed

lemma year_first:
  assumes "ascii_digit a" and "ascii_digit b" and "ascii_digit c" and "ascii_digit d"
  shows "match_alts year_re (a # b # c # d # r) = [([a, b, c, d], r)]"
  using assms by (simp add: match_alts_def year_re_def List.map_filter_def ascii_digit_facts)

lemma dash_first: "match_alts dash_re (of_char CHR ''-'' # r) = [([of_char CHR ''-''], r)]"
  by (simp add: match_alts_def dash_re_def List.map_filter_def is_char_def)

lemma month_first:
  assumes "ascii_digit e" and "ascii_digit f"
    and "1 \<le> (e - 48) * 10 + (f - 48)" and "(e - 48) * 10 + (f - 48) \<le> 12"
  shows "\<exists>xs. match_alts month_re (e # f # r) = ([e, f], r) # xs"
proof -
  from assms have "(e = 49 \<and> 48 \<le> f \<and> f \<le> 50) \<or> (e = 48 \<and> 49 \<le> f \<and> f \<le> 57)"
    by (auto simp: ascii_digit_def)
  then show ?thesis
    by (auto simp: match_alts_def month_re_def List.map_filter_def is_char_def between_def)
qed

lemma day_first:
  assumes "ascii_digit g" and "ascii_digit h"
    and "1 \<le> (g - 48) * 10 + (h - 48)" and "(g - 48) * 10 + (h - 48) \<le> 31"
  shows "\<exists>xs. match_alts day_re [g, h] = ([g, h], []) # xs"
proof -
  from assms have "(g = 51 \<and> 48 \<le> h \<and> h \<le> 49) \<or> (49 \<le> g \<and> g \<le> 50)
      \<or> (g = 48 \<and> 49 \<le> h \<and> h \<le> 57)"
    by (auto simp: ascii_digit_def)
  with assms(2) show ?thesis
    by (auto simp: match_alts_def day_re_def List.map_filter_def is_char_def between_def
        ascii_digit_facts)
qed

lemma days_in_month_le: "days_in_month y m \<le> 31"
  by (simp add: days_in_month_def)

lemma exact_ymd_accepted:
  assumes "exact_ymd s"
  shows "strptime_ymd s = Some (decimal_value (take 4 s), decimal_value (take 2 (drop 5 s)),
      decimal_value (drop 8 s))"
proof -
  from assms have "length s = Suc (Suc (Suc (Suc (Suc (Suc (Suc (Suc (Suc (Suc 0)))))))))"
    by (simp add: exact_ymd_def)
  then obtain a b c d x e f y g h where s: "s = [a, b, c, d, x, e, f, y, g, h]"
    by (auto simp: length_Suc_conv)
  from assms have x: "x = of_char CHR ''-''" "y = of_char CHR ''-''"
    and dg: "ascii_digit a" "ascii_digit b" "ascii_digit c" "ascii_digit d"
      "ascii_digit e" "ascii_digit f" "ascii_digit g" "ascii_digit h"
    and ok: "date_ok (decimal_value [a, b, c, d]) (decimal_value [e, f]) (decimal_value [g, h])"
    by (simp_all add: exact_ymd_def s)
  from ok have m: "1 \<le> (e - 48) * 10 + (f - 48)" "(e - 48) * 10 + (f - 48) \<le> 12"
    by (simp_all add: date_ok_def decimal_value_def)
  from ok days_in_month_le [of "decimal_value [a, b, c, d]" "decimal_value [e, f]"]
  have dd: "1 \<le> (g - 48) * 10 + (h - 48)" "(g - 48) * 10 + (h - 48) \<le> 31"
    by (simp_all add: date_ok_def decimal_value_def)
  from month_first [OF dg(5,6) m] obtain ms
    where ms: "match_alts month_re [e, f, of_char CHR ''-'', g, h]
      = ([e, f], [of_char CHR ''-'', g, h]) # ms"
    by blast
  from day_first [OF dg(7,8) dd] obtain ds
    where ds: "match_alts day_re [g, h] = ([g, h], []) # ds"
    by blast
  have "\<exists>rest. ymd_matches s = ([a, b, c, d], [e, f], [g, h], []) # rest"
    unfolding ymd_matches_def s x
    by (simp only: year_first [OF dg(1-4)] dash_first ms ds list.map concat.simps
        prod.case append.simps) simp
  then obtain rest where r: "ymd_matches s = ([a, b, c, d], [e, f], [g, h], []) # rest" ..
  have p: "py_int [a, b, c, d] = Some (decimal_value [a, b, c, d])"
    "py_int [e, f] = Some (decimal_value [e, f])"
    "py_int [g, h] = Some (decimal_value [g, h])"
    using dg by (simp_all add: py_int_ascii)
  show ?thesis
    using ok by (simp add: strptime_ymd_def r p) (simp add: s)
qed

lemma exact_date_parsed:
  assumes "map strip (split CHR ''|'' raw) = [t, a, d, p, g]" and "t \<noteq> []"
    and "exact_ymd d" and "lower p \<in> {ascii ''low'', ascii ''medium'', ascii ''high''}"
  shows "parse_task_input raw = Inr \<lparr>title = t, assignee = normalize_username a,
      due_date = d, priority = lower p, tags = g\<rparr>"
  unfolding parse_five [OF assms(1)]
  using assms(2,4) exact_ymd_accepted [OF assms(3)] by simp

lemma fullwidth_date_accepted:
  "\<not> exact_ymd (0xFF12 # ascii ''024-01-05'')
   \<and> strptime_ymd (0xFF12 # ascii ''024-01-05'') = Some (2024, 1, 5)"
  by code_simp

lemma lenient_date_listed_late:
  "list_open 7 [sample_row 1 7 ''2024-1-5'' ''low'' ''open'' None,
                sample_row 2 7 ''2024-01-10'' ''low'' ''open'' None]
     = [sample_row 2 7 ''2024-01-10'' ''low'' ''open'' None,
        sample_row 1 7 ''2024-1-5'' ''low'' ''open'' None]"
  by (simp add: list_open_def sort_rows_def order_by_def sample_row_def ascii_def)

text \<open>
  Claim C2. A third field that is not an exact \<open>YYYY-MM-DD\<close> calendar date, with a
  year of four digits, a month of two and a day of two, is to fail with the date error, and
  the message of that error names this very format. \<open>parse_task_input\<close> leaves the check
  to \<open>strptime\<close>, whose month and day take one digit as well: for the input
  \<open>Ship report | alice | 2024-1-5 | low | q1\<close> the third field is not of the exact
  form, no error is raised, and the task is produced with the due date \<open>2024-1-5\<close> as
  written.
\<close>

theorem lenient_date_accepted:
  "\<not> exact_ymd (ascii ''2024-1-5'')
   \<and> map strip (split CHR ''|'' (ascii ''Ship report | alice | 2024-1-5 | low | q1''))
     = [ascii ''Ship report'', ascii ''alice'', ascii ''2024-1-5'', ascii ''low'', ascii ''q1'']
   \<and> strptime_ymd (ascii ''2024-1-5'') = Some (2024, 1, 5)
   \<and> parse_task_input (ascii ''Ship report | alice | 2024-1-5 | low | q1'')
     = Inr \<lparr>title = ascii ''Ship report'', assignee = ascii ''@alice'',
            due_date = ascii ''2024-1-5'', priority = ascii ''low'', tags = ascii ''q1''\<rparr>"
  by code_simp


end
